theory Spec2Isabelle
  imports Complex_Main
begin

section \<open>Data model (src/lib/fraud/types.ts)\<close>

datatype Classification = GOOD | WARN | BAD

text \<open>
  \<open>DeviceType\<close> is the string union \<open>'desktop' | 'mobile' | 'tablet' | 'bot' | 'unknown'\<close>.
  The request validator only checks \<open>typeof device.type === 'string'\<close>, so the value that
  reaches the classifier is a string; it is kept as one, which makes the fallback branch of
  \<open>analyzeBehavior\<close> reachable as it is at run time.
\<close>

type_synonym DeviceType = string

record DeviceInfo =
  type :: DeviceType
  isMobile :: bool
  isTablet :: bool
  isDesktop :: bool
  isFakeMobile :: bool
  isAutomated :: bool
  isHeadless :: bool
  os :: string
  osVersion :: string
  browser :: string
  browserVersion :: string
  platform :: string

text \<open>
  Of a \<open>Fingerprint\<close> the classifier reads \<open>device\<close> only; the identity strings are kept,
  the remaining descriptive fields (screen, hardware, plugins, ...) live in the record's
  extension slot.
\<close>

record Fingerprint =
  device :: DeviceInfo
  userAgent :: string
  language :: string
  timezone :: string
  canvasHash :: string
  webglHash :: string

text \<open>The counters of \<open>BehaviorData\<close> are event counts; they are modelled as integers.\<close>

record BehaviorData =
  mouseMovements :: int
  mouseClicks :: int
  mouseDistance :: int
  touchEvents :: int
  touchTaps :: int
  touchSwipes :: int
  scrollEvents :: int
  scrollDistance :: int
  keyPresses :: int
  activeTime :: int
  totalTime :: int
  lastEventTime :: int
  sessionId :: string
  pageUrl :: string

record IpReputationResult =
  ip :: string
  isVpn :: bool
  isDatacenter :: bool
  isMobileCarrier :: bool
  isProxy :: bool
  isTor :: bool
  asn :: "nat option"
  org :: string
  isp :: string
  country :: string
  countryCode :: string
  region :: string
  city :: string
  cached :: bool

record FraudDetails =
  ipReputation :: "IpReputationResult option"
  deviceType :: "DeviceType option"
  flags :: "string list"

record FraudResult =
  classification :: Classification
  score :: int
  reason :: string
  timestamp :: int
  processingTime :: rat
  details :: FraudDetails

section \<open>Configuration (src/lib/fraud-config.ts)\<close>

definition desktop_mouseMovements_good :: int where "desktop_mouseMovements_good = 40"
definition desktop_mouseMovements_warn :: int where "desktop_mouseMovements_warn = 20"
definition mobile_touchEvents_good :: int where "mobile_touchEvents_good = 7"
definition mobile_touchEvents_warn :: int where "mobile_touchEvents_warn = 3"

definition SCORING_WEIGHTS_ipReputation :: rat where "SCORING_WEIGHTS_ipReputation = 60"
definition SCORING_WEIGHTS_deviceFingerprint :: rat where "SCORING_WEIGHTS_deviceFingerprint = 30"
definition SCORING_WEIGHTS_behavior :: rat where "SCORING_WEIGHTS_behavior = 10"

definition HIGH_RISK_BROWSERS :: "string list" where
  "HIGH_RISK_BROWSERS = [''facebook'', ''facebook messenger'', ''opera mini'']"

section \<open>String helpers\<close>

text \<open>Template literals print numbers in decimal.\<close>

fun showNat :: "nat \<Rightarrow> string" where
  "showNat n = (if n < 10 then [char_of (48 + n)] else showNat (n div 10) @ [char_of (48 + n mod 10)])"

declare showNat.simps [simp del]

definition showInt :: "int \<Rightarrow> string" where
  "showInt i = (if i < 0 then CHR ''-'' # showNat (nat (- i)) else showNat (nat i))"

text \<open>\<open>String.prototype.includes\<close>: the keyword occurs as a contiguous substring.\<close>

fun startsWith :: "string \<Rightarrow> string \<Rightarrow> bool" where
  "startsWith s [] = True"
| "startsWith [] (k # ks) = False"
| "startsWith (c # cs) (k # ks) = (c = k \<and> startsWith cs ks)"

fun str_includes :: "string \<Rightarrow> string \<Rightarrow> bool" where
  "str_includes [] k = (k = [])"
| "str_includes (c # cs) k = (startsWith (c # cs) k \<or> str_includes cs k)"

text \<open>
  \<open>String.prototype.toLowerCase\<close> on the letters \<open>A\<close>..\<open>Z\<close>; every other character is
  left as it is. All keywords the result is searched for are lower-case ASCII.
\<close>

definition toLowerChar :: "char \<Rightarrow> char" where
  "toLowerChar c =
    (case map_of (zip ''ABCDEFGHIJKLMNOPQRSTUVWXYZ'' ''abcdefghijklmnopqrstuvwxyz'') c of
       Some l \<Rightarrow> l
     | None \<Rightarrow> c)"

definition toLowerCase :: "string \<Rightarrow> string" where
  "toLowerCase s = map toLowerChar s"

section \<open>Behavior analysis (classifier.ts, analyzeBehavior)\<close>

record BehaviorAnalysisResult =
  b_score :: int
  b_classification :: Classification
  b_reason :: string
  b_flags :: "string list"

definition analyzeBehavior :: "DeviceType \<Rightarrow> 'a BehaviorData_scheme \<Rightarrow> BehaviorAnalysisResult" where
  "analyzeBehavior dt beh =
    (if dt = ''bot'' \<or> dt = ''unknown'' then
       \<lparr>b_score = 0, b_classification = BAD,
        b_reason = ''Suspicious device type: '' @ dt,
        b_flags = [''suspicious_device_type'']\<rparr>
     else if dt = ''desktop'' then
       (let mm = mouseMovements beh in
        if mm \<ge> desktop_mouseMovements_good then
          \<lparr>b_score = 100, b_classification = GOOD,
           b_reason = ''Good desktop behavior: '' @ showInt mm @ '' mouse movements'',
           b_flags = [''good_mouse_behavior'']\<rparr>
        else if mm \<ge> desktop_mouseMovements_warn then
          \<lparr>b_score = 60, b_classification = WARN,
           b_reason = ''Low mouse movements: '' @ showInt mm @ '' (threshold: ''
                        @ showInt desktop_mouseMovements_good @ '')'',
           b_flags = [] @ [''low_mouse_movements'']\<rparr>
        else
          \<lparr>b_score = 40, b_classification = WARN,
           b_reason = ''Very low mouse movements: '' @ showInt mm,
           b_flags = [] @ [''very_low_mouse_movements'']\<rparr>)
     else if dt = ''mobile'' \<or> dt = ''tablet'' then
       (let te = touchEvents beh in
        if te \<ge> mobile_touchEvents_good then
          \<lparr>b_score = 100, b_classification = GOOD,
           b_reason = ''Good mobile behavior: '' @ showInt te @ '' touch events'',
           b_flags = [''good_touch_behavior'']\<rparr>
        else if te \<ge> mobile_touchEvents_warn then
          \<lparr>b_score = 60, b_classification = WARN,
           b_reason = ''Low touch events: '' @ showInt te @ '' (threshold: ''
                        @ showInt mobile_touchEvents_good @ '')'',
           b_flags = [] @ [''low_touch_events'']\<rparr>
        else
          \<lparr>b_score = 40, b_classification = WARN,
           b_reason = ''Very low touch events: '' @ showInt te,
           b_flags = [] @ [''very_low_touch_events'']\<rparr>)
     else
       \<lparr>b_score = 50, b_classification = WARN,
        b_reason = ''Unknown behavior pattern'',
        b_flags = [''unknown_behavior'']\<rparr>)"

section \<open>In-memory LRU cache (src/lib/fraud/server/cache.ts)\<close>

text \<open>
  A JavaScript \<open>Map\<close> keeps its keys in insertion order and holds each key once. It is
  modelled as an association list, oldest insertion first: \<open>set\<close> on a present key keeps
  its position, \<open>set\<close> on a new key appends, \<open>delete\<close> removes.
\<close>

definition Map_get :: "('k \<times> 'v) list \<Rightarrow> 'k \<Rightarrow> 'v option" where
  "Map_get m k = map_of m k"

definition Map_has :: "('k \<times> 'v) list \<Rightarrow> 'k \<Rightarrow> bool" where
  "Map_has m k = (map_of m k \<noteq> None)"

definition Map_delete :: "('k \<times> 'v) list \<Rightarrow> 'k \<Rightarrow> ('k \<times> 'v) list" where
  "Map_delete m k = filter (\<lambda>kv. fst kv \<noteq> k) m"

definition Map_set :: "('k \<times> 'v) list \<Rightarrow> 'k \<Rightarrow> 'v \<Rightarrow> ('k \<times> 'v) list" where
  "Map_set m k v =
    (if Map_has m k then map (\<lambda>kv. if fst kv = k then (k, v) else kv) m else m @ [(k, v)])"

definition Map_size :: "('k \<times> 'v) list \<Rightarrow> nat" where
  "Map_size m = length m"

text \<open>\<open>map.keys().next().value\<close>: the first key, \<open>undefined\<close> on an empty map.\<close>

definition Map_firstKey :: "('k \<times> 'v) list \<Rightarrow> 'k option" where
  "Map_firstKey m = (case m of [] \<Rightarrow> None | kv # _ \<Rightarrow> Some (fst kv))"

record 'a CacheEntry =
  entry_value :: 'a
  expiresAt :: int
  lastAccessed :: int

record CacheStats =
  hits :: nat
  misses :: nat
  stats_size :: nat
  stats_maxSize :: int

record 'a LRUCache =
  cache :: "(string \<times> 'a CacheEntry) list"
  maxSize :: int
  defaultTtlMs :: int
  stats :: CacheStats

definition LRUCache_new :: "int \<Rightarrow> int \<Rightarrow> 'a LRUCache" where
  "LRUCache_new mx ttl =
    \<lparr>cache = [], maxSize = mx, defaultTtlMs = ttl,
     stats = \<lparr>hits = 0, misses = 0, stats_size = 0, stats_maxSize = mx\<rparr>\<rparr>"

text \<open>
  Every operation takes the reading \<open>now\<close> of \<open>Date.now()\<close> as an argument.
  \<open>get\<close> returns the value (or \<open>None\<close> for \<open>undefined\<close>) and the updated cache.
\<close>

definition LRUCache_get :: "'a LRUCache \<Rightarrow> int \<Rightarrow> string \<Rightarrow> 'a option \<times> 'a LRUCache" where
  "LRUCache_get c now key =
    (case Map_get (cache c) key of
       None \<Rightarrow> (None, c\<lparr>stats := (stats c)\<lparr>misses := misses (stats c) + 1\<rparr>\<rparr>)
     | Some entry \<Rightarrow>
         if now > expiresAt entry then
           (let m = Map_delete (cache c) key in
            (None, c\<lparr>cache := m,
                      stats := (stats c)\<lparr>stats_size := Map_size m, misses := misses (stats c) + 1\<rparr>\<rparr>))
         else
           (let e = entry\<lparr>lastAccessed := now\<rparr>;
                m = Map_set (Map_delete (cache c) key) key e in
            (Some (entry_value e), c\<lparr>cache := m, stats := (stats c)\<lparr>hits := hits (stats c) + 1\<rparr>\<rparr>)))"

text \<open>
  \<open>evictOldest\<close> deletes the first key only \<open>if (firstKey)\<close>: the test is false for
  \<open>undefined\<close> (empty map) and also for the empty string.
\<close>

definition evictOldest :: "'a LRUCache \<Rightarrow> 'a LRUCache" where
  "evictOldest c =
    (case Map_firstKey (cache c) of
       None \<Rightarrow> c
     | Some firstKey \<Rightarrow> if firstKey \<noteq> [] then c\<lparr>cache := Map_delete (cache c) firstKey\<rparr> else c)"

definition LRUCache_set :: "'a LRUCache \<Rightarrow> int \<Rightarrow> string \<Rightarrow> 'a \<Rightarrow> int option \<Rightarrow> 'a LRUCache" where
  "LRUCache_set c now key v ttlMs =
    (let ttl = (case ttlMs of Some t \<Rightarrow> t | None \<Rightarrow> defaultTtlMs c);
         c1 = (if int (Map_size (cache c)) \<ge> maxSize c \<and> \<not> Map_has (cache c) key
               then evictOldest c else c);
         m = Map_set (Map_delete (cache c1) key) key
               \<lparr>entry_value = v, expiresAt = now + ttl, lastAccessed = now\<rparr>
     in c1\<lparr>cache := m, stats := (stats c1)\<lparr>stats_size := Map_size m\<rparr>\<rparr>)"

definition LRUCache_has :: "'a LRUCache \<Rightarrow> int \<Rightarrow> string \<Rightarrow> bool \<times> 'a LRUCache" where
  "LRUCache_has c now key =
    (case Map_get (cache c) key of
       None \<Rightarrow> (False, c)
     | Some entry \<Rightarrow>
         if now > expiresAt entry then
           (let m = Map_delete (cache c) key in
            (False, c\<lparr>cache := m, stats := (stats c)\<lparr>stats_size := Map_size m\<rparr>\<rparr>))
         else (True, c))"

definition LRUCache_delete :: "'a LRUCache \<Rightarrow> string \<Rightarrow> bool \<times> 'a LRUCache" where
  "LRUCache_delete c key =
    (let deleted = Map_has (cache c) key; m = Map_delete (cache c) key in
     (deleted, c\<lparr>cache := m, stats := (stats c)\<lparr>stats_size := Map_size m\<rparr>\<rparr>))"

definition LRUCache_clear :: "'a LRUCache \<Rightarrow> 'a LRUCache" where
  "LRUCache_clear c = c\<lparr>cache := [], stats := (stats c)\<lparr>stats_size := 0\<rparr>\<rparr>"

definition LRUCache_cleanup :: "'a LRUCache \<Rightarrow> int \<Rightarrow> nat \<times> 'a LRUCache" where
  "LRUCache_cleanup c now =
    (let cleaned = length (filter (\<lambda>kv. now > expiresAt (snd kv)) (cache c));
         m = filter (\<lambda>kv. \<not> now > expiresAt (snd kv)) (cache c) in
     (cleaned, c\<lparr>cache := m, stats := (stats c)\<lparr>stats_size := Map_size m\<rparr>\<rparr>))"

definition CACHE_CONFIG_ip_maxSize :: int where "CACHE_CONFIG_ip_maxSize = 1000"
definition CACHE_CONFIG_ip_ttlMs :: int where "CACHE_CONFIG_ip_ttlMs = 60 * 60 * 1000"

text \<open>
  The state a cache is meant to be in: keys held once, none of them the empty string, a
  capacity of at least one entry and no more entries than the capacity.
\<close>

definition cache_inv :: "'a LRUCache \<Rightarrow> bool" where
  "cache_inv c =
    (distinct (map fst (cache c)) \<and> [] \<notin> set (map fst (cache c)) \<and>
     1 \<le> maxSize c \<and> int (length (cache c)) \<le> maxSize c)"

text \<open>A call of one of the public methods, with the clock reading it sees.\<close>

datatype 'a cache_op =
    OpGet int string
  | OpSet int string 'a "int option"
  | OpHas int string
  | OpDelete string
  | OpClear
  | OpCleanup int

fun apply_op :: "'a LRUCache \<Rightarrow> 'a cache_op \<Rightarrow> 'a LRUCache" where
  "apply_op c (OpGet now key) = snd (LRUCache_get c now key)"
| "apply_op c (OpSet now key v ttl) = LRUCache_set c now key v ttl"
| "apply_op c (OpHas now key) = snd (LRUCache_has c now key)"
| "apply_op c (OpDelete key) = snd (LRUCache_delete c key)"
| "apply_op c OpClear = LRUCache_clear c"
| "apply_op c (OpCleanup now) = snd (LRUCache_cleanup c now)"

definition run_ops :: "'a LRUCache \<Rightarrow> 'a cache_op list \<Rightarrow> 'a LRUCache" where
  "run_ops c ops = foldl apply_op c ops"

fun sets_nonempty_key :: "'a cache_op \<Rightarrow> bool" where
  "sets_nonempty_key (OpSet now key v ttl) = (key \<noteq> [])"
| "sets_nonempty_key _ = True"

section \<open>Regular expressions used by the IP validator\<close>

text \<open>
  The two patterns of \<open>isValidIp\<close> use character classes, concatenation and bounded
  repetition \<open>r{m,n}\<close> only, anchored at both ends. \<open>RegExp.test\<close> on an anchored
  pattern is a whole-string match, decided here by derivatives.
\<close>

datatype rx = Nul | Eps | Cls string | Alt rx rx | Cat rx rx | Rep nat nat rx

fun nullable :: "rx \<Rightarrow> bool" where
  "nullable Nul = False"
| "nullable Eps = True"
| "nullable (Cls cs) = False"
| "nullable (Alt r s) = (nullable r \<or> nullable s)"
| "nullable (Cat r s) = (nullable r \<and> nullable s)"
| "nullable (Rep m n r) = (m \<le> n \<and> (m = 0 \<or> nullable r))"

fun deriv :: "char \<Rightarrow> rx \<Rightarrow> rx" where
  "deriv c Nul = Nul"
| "deriv c Eps = Nul"
| "deriv c (Cls cs) = (if c \<in> set cs then Eps else Nul)"
| "deriv c (Alt r s) = Alt (deriv c r) (deriv c s)"
| "deriv c (Cat r s) =
     (if nullable r then Alt (Cat (deriv c r) s) (deriv c s) else Cat (deriv c r) s)"
| "deriv c (Rep m n r) =
     (if m \<le> n \<and> 0 < n then Cat (deriv c r) (Rep (m - 1) (n - 1) r) else Nul)"

fun rx_test :: "rx \<Rightarrow> string \<Rightarrow> bool" where
  "rx_test r [] = nullable r"
| "rx_test r (c # cs) = rx_test (deriv c r) cs"

definition rx_digit :: rx where
  "rx_digit = Cls ''0123456789''"

definition rx_hex :: rx where
  "rx_hex = Cls ''0123456789abcdefABCDEF''"

text \<open>\<open>/^(\d{1,3}\.){3}\d{1,3}$/\<close>\<close>

definition ipv4Regex :: rx where
  "ipv4Regex = Cat (Rep 3 3 (Cat (Rep 1 3 rx_digit) (Cls ''.''))) (Rep 1 3 rx_digit)"

text \<open>\<open>/^([0-9a-fA-F]{0,4}:){2,7}[0-9a-fA-F]{0,4}$/\<close>\<close>

definition ipv6Regex :: rx where
  "ipv6Regex = Cat (Rep 2 7 (Cat (Rep 0 4 rx_hex) (Cls '':''))) (Rep 0 4 rx_hex)"

text \<open>
  The meaning of a pattern as a set of strings, against which the matcher is checked
  (lemma \<open>rx_test_iff\<close>).
\<close>

definition conc :: "string set \<Rightarrow> string set \<Rightarrow> string set" where
  "conc A B = {u @ v | u v. u \<in> A \<and> v \<in> B}"

fun pow :: "string set \<Rightarrow> nat \<Rightarrow> string set" where
  "pow A 0 = {[]}"
| "pow A (Suc n) = conc A (pow A n)"

fun lang :: "rx \<Rightarrow> string set" where
  "lang Nul = {}"
| "lang Eps = {[]}"
| "lang (Cls cs) = {[c] | c. c \<in> set cs}"
| "lang (Alt r s) = lang r \<union> lang s"
| "lang (Cat r s) = conc (lang r) (lang s)"
| "lang (Rep m n r) = (\<Union>k \<in> {m..n}. pow (lang r) k)"

definition Deriv :: "char \<Rightarrow> string set \<Rightarrow> string set" where
  "Deriv c A = {w. c # w \<in> A}"

section \<open>IP reputation service (ip-reputation.ts)\<close>

text \<open>\<open>String.prototype.split\<close> with a one-character separator.\<close>

fun split_on :: "char \<Rightarrow> string \<Rightarrow> string list" where
  "split_on d [] = [[]]"
| "split_on d (c # cs) =
     (if c = d then [] # split_on d cs
      else (case split_on d cs of [] \<Rightarrow> [[c]] | p # ps \<Rightarrow> (c # p) # ps))"

definition isDigit :: "char \<Rightarrow> bool" where
  "isDigit c = (c \<in> set ''0123456789'')"

definition digitVal :: "char \<Rightarrow> nat" where
  "digitVal c = (case map_of (zip ''0123456789'' [0, 1, 2, 3, 4, 5, 6, 7, 8, 9]) c of
                   Some n \<Rightarrow> n | None \<Rightarrow> 0)"

text \<open>
  \<open>parseInt(s, 10)\<close> reads the leading decimal digits; with none it gives \<open>NaN\<close>
  (\<open>None\<close>). Both call sites pass strings of digits, so sign and leading white space of
  the JavaScript function are not modelled.
\<close>

definition parseInt10 :: "string \<Rightarrow> nat option" where
  "parseInt10 s =
    (let ds = takeWhile isDigit s in
     if ds = [] then None else Some (foldl (\<lambda>a c. 10 * a + digitVal c) 0 ds))"

text \<open>Comparisons with \<open>NaN\<close> are false.\<close>

definition isValidIp :: "string \<Rightarrow> bool" where
  "isValidIp addr =
    (if rx_test ipv4Regex addr then
       list_all (\<lambda>octet. case parseInt10 octet of None \<Rightarrow> False | Some num \<Rightarrow> num \<ge> 0 \<and> num \<le> 255)
                (split_on CHR ''.'' addr)
     else rx_test ipv6Regex addr)"

text \<open>\<open>asnString.match(/\d+/)\<close> is the first maximal run of digits.\<close>

definition parseAsn :: "string \<Rightarrow> nat option" where
  "parseAsn asnString =
    (if asnString = [] then None
     else (let m = takeWhile isDigit (dropWhile (\<lambda>c. \<not> isDigit c) asnString) in
           if m = [] then None else parseInt10 m))"

definition createUnknownResult :: "string \<Rightarrow> string \<Rightarrow> IpReputationResult" where
  "createUnknownResult addr why =
    \<lparr>ip = addr, isVpn = False, isDatacenter = False, isMobileCarrier = False,
     isProxy = False, isTor = False, asn = None, org = [], isp = [],
     country = [], countryCode = [], region = [], city = [], cached = False\<rparr>"

definition MOBILE_CARRIER_ASNS_india :: "nat list" where
  "MOBILE_CARRIER_ASNS_india =
    [55836, 45609, 24560, 9498, 45514, 55410, 38266, 9829, 4755, 17747, 18101]"

definition MOBILE_CARRIER_ASNS_usa :: "nat list" where
  "MOBILE_CARRIER_ASNS_usa = [7018, 20115, 22394, 6167, 21928, 20057]"

definition MOBILE_CARRIER_ASNS_other :: "nat list" where
  "MOBILE_CARRIER_ASNS_other = [12576, 23455, 34984, 5384, 15802, 24218, 10091]"

definition ALL_CARRIER_ASNS :: "nat set" where
  "ALL_CARRIER_ASNS =
    set (MOBILE_CARRIER_ASNS_india @ MOBILE_CARRIER_ASNS_usa @ MOBILE_CARRIER_ASNS_other)"

definition DATACENTER_ASNS :: "nat set" where
  "DATACENTER_ASNS =
    set [16509, 14618, 8987, 15169, 396982, 8075, 8068, 8069, 14061, 63949, 20473,
         16276, 24940, 13335]"

definition VPN_KEYWORDS :: "string list" where
  "VPN_KEYWORDS =
    [''vpn'', ''proxy'', ''tor'', ''tunnel'', ''anonymou'', ''private internet'',
     ''surfshark'', ''nordvpn'', ''expressvpn'', ''cyberghost'', ''purevpn'',
     ''ipvanish'', ''protonvpn'', ''mullvad'', ''windscribe'', ''hotspot shield'',
     ''hma'', ''hide.me'', ''privatevpn'', ''strongvpn'', ''torguard'']"

definition DATACENTER_KEYWORDS :: "string list" where
  "DATACENTER_KEYWORDS =
    [''amazon'', ''aws'', ''ec2'', ''cloudfront'',
     ''google'', ''gcp'', ''cloud'',
     ''microsoft'', ''azure'',
     ''digitalocean'', ''linode'', ''vultr'', ''hetzner'',
     ''ovh'', ''scaleway'', ''upcloud'',
     ''hosting'', ''server'', ''datacenter'', ''data center'',
     ''colocation'', ''colo'', ''dedicated'',
     ''cloudflare'', ''fastly'', ''akamai'', ''cdn'',
     ''rackspace'', ''godaddy'', ''bluehost'', ''hostinger'',
     ''vps'', ''virtual private'', ''virtual server'']"

text \<open>
  The body of the lookup service's answer, with the fields of the interface
  \<open>IpApiResponse\<close> (prefixed, since several share a name with \<open>IpReputationResult\<close>).
  \<open>latitude\<close> and \<open>longitude\<close> are never read and are left to the extension slot.
\<close>

record IpApiResponse =
  api_ip :: string
  api_city :: string
  api_region :: string
  api_country :: string
  api_country_code :: string
  api_postal :: string
  api_timezone :: string
  api_utc_offset :: string
  api_org :: string
  api_asn :: string
  api_error :: "bool option"
  api_reason :: "string option"

definition parseIpApiResponse :: "'a IpApiResponse_scheme \<Rightarrow> IpReputationResult" where
  "parseIpApiResponse d =
    (let asnNumber = parseAsn (api_asn d);
         orgl = toLowerCase (api_org d);
         carrier = (case asnNumber of None \<Rightarrow> False | Some n \<Rightarrow> n \<in> ALL_CARRIER_ASNS);
         isDatacenterAsn = (case asnNumber of None \<Rightarrow> False | Some n \<Rightarrow> n \<in> DATACENTER_ASNS);
         vpn = list_ex (\<lambda>keyword. str_includes orgl keyword) VPN_KEYWORDS;
         isDatacenterName = list_ex (\<lambda>keyword. str_includes orgl keyword) DATACENTER_KEYWORDS
     in \<lparr>ip = api_ip d, isVpn = vpn, isDatacenter = (isDatacenterAsn \<or> isDatacenterName),
         isMobileCarrier = carrier, isProxy = False,
         isTor = (str_includes orgl ''tor exit'' \<or> str_includes orgl ''tor project''),
         asn = asnNumber, org = api_org d, isp = api_org d,
         country = api_country d, countryCode = api_country_code d,
         region = api_region d, city = api_city d, cached = False\<rparr>)"

text \<open>
  What the one network call of a lookup can do: the timeout aborts it, the transport
  rejects it, or a response arrives with a status and a body that parses as JSON or not.
\<close>

datatype http_body = Unparsable | Json IpApiResponse

datatype fetch_outcome = Aborted | Rejected | Responded nat http_body

datatype js_error = AbortError | TypeError | SyntaxError | Error string

definition IP_API_CONFIG_free_url :: "string \<Rightarrow> string" where
  "IP_API_CONFIG_free_url addr = ''https://ipapi.co/'' @ addr @ ''/json/''"

definition response_ok :: "nat \<Rightarrow> bool" where
  "response_ok status = (200 \<le> status \<and> status \<le> 299)"

definition fetchIpReputation :: "(string \<Rightarrow> fetch_outcome) \<Rightarrow> string \<Rightarrow> js_error + IpReputationResult" where
  "fetchIpReputation net addr =
    (case net (IP_API_CONFIG_free_url addr) of
       Aborted \<Rightarrow> Inl AbortError
     | Rejected \<Rightarrow> Inl TypeError
     | Responded status body \<Rightarrow>
         if \<not> response_ok status then Inl (Error (''HTTP '' @ showNat status))
         else (case body of
                 Unparsable \<Rightarrow> Inl SyntaxError
               | Json d \<Rightarrow>
                   if api_error d = Some True then
                     Inl (Error (case api_reason d of
                                   None \<Rightarrow> ''Unknown API error''
                                 | Some r \<Rightarrow> if r = [] then ''Unknown API error'' else r))
                   else Inr (parseIpApiResponse d)))"

text \<open>
  The module state: the two manual lists and the lazily created singleton cache of
  \<open>getIpCache\<close> (\<open>None\<close> until first use).
\<close>

record world =
  manualWhitelist :: "string set"
  manualBlacklist :: "string set"
  ipCache :: "IpReputationResult LRUCache option"

text \<open>
  What one call reads from outside: the network, the wall clock and the performance
  counter. The readings of \<open>Date.now()\<close> during one call are taken at one instant.
\<close>

record env =
  network :: "string \<Rightarrow> fetch_outcome"
  dateNow :: int
  perfStart :: rat
  perfEnd :: rat

definition getIpCache :: "'w world_scheme \<Rightarrow> IpReputationResult LRUCache" where
  "getIpCache w =
    (case ipCache w of
       None \<Rightarrow> LRUCache_new CACHE_CONFIG_ip_maxSize CACHE_CONFIG_ip_ttlMs
     | Some c \<Rightarrow> c)"

text \<open>
  \<open>checkIpReputation\<close> returns a thrown error as \<open>Inl\<close>; the \<open>try\<close>/\<open>catch\<close> around the
  lookup is the case distinction on the result of \<open>fetchIpReputation\<close>.
\<close>

definition checkIpReputation ::
  "world \<Rightarrow> 'e env_scheme \<Rightarrow> string \<Rightarrow> (js_error + IpReputationResult) \<times> world" where
  "checkIpReputation w e addr =
    (if \<not> isValidIp addr then (Inr (createUnknownResult addr ''Invalid IP format''), w)
     else
       (case LRUCache_get (getIpCache w) (dateNow e) addr of
          (Some hit, c) \<Rightarrow> (Inr (hit\<lparr>cached := True\<rparr>), w\<lparr>ipCache := Some c\<rparr>)
        | (None, c) \<Rightarrow>
            (case fetchIpReputation (network e) addr of
               Inr result \<Rightarrow>
                 (Inr result, w\<lparr>ipCache := Some (LRUCache_set c (dateNow e) addr result None)\<rparr>)
             | Inl err \<Rightarrow> (Inr (createUnknownResult addr ''API error''), w\<lparr>ipCache := Some c\<rparr>))))"

definition addToWhitelist :: "world \<Rightarrow> string \<Rightarrow> world" where
  "addToWhitelist w addr =
    w\<lparr>manualWhitelist := insert addr (manualWhitelist w),
      manualBlacklist := manualBlacklist w - {addr}\<rparr>"

definition addToBlacklist :: "world \<Rightarrow> string \<Rightarrow> world" where
  "addToBlacklist w addr =
    w\<lparr>manualBlacklist := insert addr (manualBlacklist w),
      manualWhitelist := manualWhitelist w - {addr}\<rparr>"

definition isWhitelisted :: "'w world_scheme \<Rightarrow> string \<Rightarrow> bool" where
  "isWhitelisted w addr = (addr \<in> manualWhitelist w)"

definition isBlacklisted :: "'w world_scheme \<Rightarrow> string \<Rightarrow> bool" where
  "isBlacklisted w addr = (addr \<in> manualBlacklist w)"

section \<open>Classification engine (classifier.ts)\<close>

record ClassifyInput =
  input_ip :: string
  fingerprint :: Fingerprint
  behavior :: BehaviorData

definition calculateIpScore :: "'r IpReputationResult_scheme \<Rightarrow> int" where
  "calculateIpScore rep =
    (if isMobileCarrier rep then 95
     else if isVpn rep \<or> isTor rep then 0
     else if isDatacenter rep then 10
     else if isProxy rep then 20
     else 80)"

definition createResult ::
  "'e env_scheme \<Rightarrow> Classification \<Rightarrow> int \<Rightarrow> string \<Rightarrow> rat \<Rightarrow> string list \<Rightarrow>
   IpReputationResult option \<Rightarrow> DeviceType option \<Rightarrow> FraudResult" where
  "createResult e cl sc why startTime fl rep dt =
    \<lparr>classification = cl, score = sc, reason = why, timestamp = dateNow e,
     processingTime = perfEnd e - startTime,
     details = \<lparr>ipReputation = rep, deviceType = dt, flags = fl\<rparr>\<rparr>"

text \<open>\<open>Math.round\<close>: the nearest integer, halves upwards.\<close>

definition Math_round :: "rat \<Rightarrow> int" where
  "Math_round x = \<lfloor>x + 1 / 2\<rfloor>"

definition isHighRiskBrowser :: "string \<Rightarrow> bool" where
  "isHighRiskBrowser br =
    (let browserLower = toLowerCase br in
     list_ex (\<lambda>b. str_includes browserLower b) HIGH_RISK_BROWSERS)"

text \<open>
  The behaviour stage of \<open>classify\<close> (its last part, after the mobile-carrier rule), given
  the resolved reputation. The high-risk penalty overwrites \<open>behaviorResult.score\<close> before
  the composite score and the label are computed from it.
\<close>

definition classifyBehaviorStage ::
  "'e env_scheme \<Rightarrow> rat \<Rightarrow> DeviceInfo \<Rightarrow> BehaviorData \<Rightarrow> IpReputationResult \<Rightarrow> FraudResult" where
  "classifyBehaviorStage e startTime dev beh rep =
    (let behaviorResult = analyzeBehavior (type dev) beh;
         fl0 = [] @ b_flags behaviorResult;
         highRisk = isHighRiskBrowser (browser dev);
         fl = (if highRisk then fl0 @ [''high_risk_browser''] else fl0);
         bscore = (if highRisk then max 0 (b_score behaviorResult - 10) else b_score behaviorResult);
         finalScore = Math_round
           (of_int (if isMobileCarrier rep then 60 else calculateIpScore rep)
              * (SCORING_WEIGHTS_ipReputation / 100)
            + of_int (if isFakeMobile dev \<or> isAutomated dev then 0 else 80)
              * (SCORING_WEIGHTS_deviceFingerprint / 100)
            + of_int bscore * (SCORING_WEIGHTS_behavior / 100));
         cl = (if bscore \<ge> 80 then GOOD else if bscore \<ge> 40 then WARN else WARN);
         why = b_reason behaviorResult
     in createResult e cl finalScore why startTime fl (Some rep) (Some (type dev)))"

definition classify ::
  "world \<Rightarrow> 'e env_scheme \<Rightarrow> ClassifyInput \<Rightarrow> (js_error + FraudResult) \<times> world" where
  "classify w e inp =
    (let startTime = perfStart e;
         addr = input_ip inp;
         dev = device (fingerprint inp)
     in
     if isBlacklisted w addr then
       (Inr (createResult e BAD 0 ''IP is blacklisted'' startTime [] None None), w)
     else if isWhitelisted w addr then
       (Inr (createResult e GOOD 100 ''IP is whitelisted'' startTime [] None None), w)
     else if isAutomated dev then
       (Inr (createResult e BAD 0 ''Automation detected (navigator.webdriver)'' startTime
               [''webdriver_detected''] None None), w)
     else if isHeadless dev then
       (Inr (createResult e BAD 0 ''Headless browser detected'' startTime
               [''headless_browser''] None None), w)
     else if isFakeMobile dev then
       (Inr (createResult e BAD 0 ''Fake mobile device detected (emulator)'' startTime
               [''fake_mobile''] None None), w)
     else
       (case checkIpReputation w e addr of
          (Inl err, w') \<Rightarrow> (Inl err, w')
        | (Inr rep, w') \<Rightarrow>
            if isVpn rep then
              (Inr (createResult e BAD 5 (''VPN detected: '' @ org rep) startTime
                      [''vpn_detected''] (Some rep) None), w')
            else if isTor rep then
              (Inr (createResult e BAD 0 ''Tor exit node detected'' startTime
                      [''tor_detected''] (Some rep) None), w')
            else if isDatacenter rep then
              (Inr (createResult e BAD 10 (''Datacenter/hosting IP: '' @ org rep) startTime
                      [''datacenter_ip''] (Some rep) None), w')
            else if isMobileCarrier rep then
              (Inr (createResult e GOOD 95 (''Mobile carrier: '' @ org rep) startTime
                      [''mobile_carrier''] (Some rep) None), w')
            else
              (Inr (classifyBehaviorStage e startTime dev (behavior inp) rep), w')))"

record SyncResult =
  sync_classification :: Classification
  sync_reason :: string

definition classifySync ::
  "'r IpReputationResult_scheme \<Rightarrow> 'f Fingerprint_scheme \<Rightarrow> 'b BehaviorData_scheme \<Rightarrow> SyncResult" where
  "classifySync rep fp beh =
    (if isAutomated (device fp) then
       \<lparr>sync_classification = BAD, sync_reason = ''Automation detected''\<rparr>
     else if isHeadless (device fp) then
       \<lparr>sync_classification = BAD, sync_reason = ''Headless browser''\<rparr>
     else if isFakeMobile (device fp) then
       \<lparr>sync_classification = BAD, sync_reason = ''Fake mobile''\<rparr>
     else if isVpn rep \<or> isTor rep then
       \<lparr>sync_classification = BAD, sync_reason = ''VPN/Tor detected''\<rparr>
     else if isDatacenter rep then
       \<lparr>sync_classification = BAD, sync_reason = ''Datacenter IP''\<rparr>
     else if isMobileCarrier rep then
       \<lparr>sync_classification = GOOD, sync_reason = ''Mobile carrier''\<rparr>
     else
       (let dt = type (device fp) in
        if dt = ''desktop'' then
          (if mouseMovements beh \<ge> 40 then
             \<lparr>sync_classification = GOOD, sync_reason = ''Good desktop behavior''\<rparr>
           else \<lparr>sync_classification = WARN, sync_reason = ''Low mouse movements''\<rparr>)
        else if dt = ''mobile'' \<or> dt = ''tablet'' then
          (if touchEvents beh \<ge> 7 then
             \<lparr>sync_classification = GOOD, sync_reason = ''Good mobile behavior''\<rparr>
           else \<lparr>sync_classification = WARN, sync_reason = ''Low touch events''\<rparr>)
        else \<lparr>sync_classification = WARN, sync_reason = ''Unknown pattern''\<rparr>))"

section \<open>The statements of the specification, as definitions\<close>

text \<open>
  The composite score in the words of the design (section 4.4, rule 10): the IP component
  is 95 for carrier IPs, 0 for VPN or Tor, 10 for datacenter, 20 for proxy and 80
  otherwise; the device component is 0 if \<open>isFakeMobile\<close> or \<open>isAutomated\<close> is set and 80
  otherwise; the behaviour component is the analyzer's score less 10 (floored at 0) for a
  high-risk browser.
\<close>

definition spec_ipComponent :: "'r IpReputationResult_scheme \<Rightarrow> int" where
  "spec_ipComponent rep =
    (if isMobileCarrier rep then 95
     else if isVpn rep \<or> isTor rep then 0
     else if isDatacenter rep then 10
     else if isProxy rep then 20
     else 80)"

definition spec_deviceComponent :: "'d DeviceInfo_scheme \<Rightarrow> int" where
  "spec_deviceComponent dev = (if isFakeMobile dev \<or> isAutomated dev then 0 else 80)"

definition spec_behaviorComponent :: "'d DeviceInfo_scheme \<Rightarrow> 'b BehaviorData_scheme \<Rightarrow> int" where
  "spec_behaviorComponent dev beh =
    (if isHighRiskBrowser (browser dev)
     then max 0 (b_score (analyzeBehavior (type dev) beh) - 10)
     else b_score (analyzeBehavior (type dev) beh))"

definition spec_compositeScore :: "int \<Rightarrow> int \<Rightarrow> int \<Rightarrow> int" where
  "spec_compositeScore ipc devc behc =
    Math_round (of_int ipc * (6 / 10) + of_int devc * (3 / 10) + of_int behc * (1 / 10))"

text \<open>
  An input reaches rule 10 when no earlier rule of the cascade matches: the address is on
  neither manual list, the three device flags are clear, and the reputation \<open>rep\<close> that
  the resolver returns for the address has none of the four decisive facets.
\<close>

definition reachesRule10 ::
  "world \<Rightarrow> 'e env_scheme \<Rightarrow> ClassifyInput \<Rightarrow> IpReputationResult \<Rightarrow> bool" where
  "reachesRule10 w e inp rep =
    (\<not> isBlacklisted w (input_ip inp) \<and> \<not> isWhitelisted w (input_ip inp) \<and>
     \<not> isAutomated (device (fingerprint inp)) \<and> \<not> isHeadless (device (fingerprint inp)) \<and>
     \<not> isFakeMobile (device (fingerprint inp)) \<and>
     fst (checkIpReputation w e (input_ip inp)) = Inr rep \<and>
     \<not> isVpn rep \<and> \<not> isTor rep \<and> \<not> isDatacenter rep \<and> \<not> isMobileCarrier rep)"

text \<open>
  A well-formed IPv4 address in the words of the design (section 4.2): four
  dot-separated octets, each a decimal number from 0 to 255. A plausible IPv6 string is
  one that matches the IPv6 pattern; the design says no more about it.
\<close>

definition decimalValue :: "string \<Rightarrow> nat" where
  "decimalValue p = foldl (\<lambda>a c. 10 * a + digitVal c) 0 p"

definition isOctet :: "string \<Rightarrow> bool" where
  "isOctet p = (p \<noteq> [] \<and> list_all isDigit p \<and> decimalValue p \<le> 255)"

definition spec_wellFormedIPv4 :: "string \<Rightarrow> bool" where
  "spec_wellFormedIPv4 s =
    (let parts = split_on CHR ''.'' s in length parts = 4 \<and> list_all isOctet parts)"

definition spec_plausibleIPv6 :: "string \<Rightarrow> bool" where
  "spec_plausibleIPv6 s = rx_test ipv6Regex s"

text \<open>One to three decimal digits, the text of an octet that the IPv4 pattern admits.\<close>

definition octetText :: "string \<Rightarrow> bool" where
  "octetText p = (p \<noteq> [] \<and> length p \<le> 3 \<and> list_all isDigit p)"

text \<open>The neutral "unknown" reputation: every facet false, no ASN, empty strings.\<close>

definition isNeutralUnknown :: "string \<Rightarrow> IpReputationResult \<Rightarrow> bool" where
  "isNeutralUnknown addr rep =
    (ip rep = addr \<and> \<not> isVpn rep \<and> \<not> isDatacenter rep \<and> \<not> isMobileCarrier rep \<and>
     \<not> isProxy rep \<and> \<not> isTor rep \<and> asn rep = None \<and> org rep = [] \<and> isp rep = [] \<and>
     country rep = [] \<and> countryCode rep = [] \<and> region rep = [] \<and> city rep = [] \<and>
     \<not> cached rep)"

text \<open>
  The lookup of an address fails when the call is aborted by the timeout, rejected by the
  transport, answered with a status outside 200..299, or answered with a body that does
  not parse or that carries the service's error mark.
\<close>

definition lookupFails :: "'e env_scheme \<Rightarrow> string \<Rightarrow> bool" where
  "lookupFails e addr =
    (case network e (IP_API_CONFIG_free_url addr) of
       Aborted \<Rightarrow> True
     | Rejected \<Rightarrow> True
     | Responded status body \<Rightarrow>
         \<not> response_ok status \<or>
         (case body of Unparsable \<Rightarrow> True | Json d \<Rightarrow> api_error d = Some True))"

section \<open>Sample inputs (from classifier.test.ts)\<close>

definition createMockDevice :: DeviceInfo where
  "createMockDevice =
    \<lparr>type = ''desktop'', isMobile = False, isTablet = False, isDesktop = True,
     isFakeMobile = False, isAutomated = False, isHeadless = False,
     os = ''Windows'', osVersion = ''10'', browser = ''Chrome'', browserVersion = ''120'',
     platform = ''Win32''\<rparr>"

definition createMockFingerprint :: "DeviceInfo \<Rightarrow> Fingerprint" where
  "createMockFingerprint dev =
    \<lparr>device = dev,
     userAgent = ''Mozilla/5.0 (Windows NT 10.0; Win64; x64) Chrome/120.0.0.0'',
     language = ''en-US'', timezone = ''Asia/Kolkata'',
     canvasHash = ''abc123'', webglHash = ''xyz789''\<rparr>"

definition createMockIpReputation :: IpReputationResult where
  "createMockIpReputation =
    \<lparr>ip = ''192.168.1.1'', isVpn = False, isDatacenter = False, isMobileCarrier = False,
     isProxy = False, isTor = False, asn = Some 12345, org = ''Test ISP'', isp = ''Test ISP'',
     country = ''India'', countryCode = ''IN'', region = ''Maharashtra'', city = ''Mumbai'',
     cached = False\<rparr>"

definition createMockBehavior :: BehaviorData where
  "createMockBehavior =
    \<lparr>mouseMovements = 0, mouseClicks = 0, mouseDistance = 0, touchEvents = 0, touchTaps = 0,
     touchSwipes = 0, scrollEvents = 0, scrollDistance = 0, keyPresses = 0, activeTime = 0,
     totalTime = 3000, lastEventTime = 0, sessionId = ''test-session'',
     pageUrl = ''https://example.com''\<rparr>"

text \<open>A service answer for a Reliance Jio address and one for an ordinary residential one.\<close>

definition jioResponse :: IpApiResponse where
  "jioResponse =
    \<lparr>api_ip = ''49.36.1.1'', api_city = ''Mumbai'', api_region = ''Maharashtra'',
     api_country = ''IN'', api_country_code = ''IN'', api_postal = ''400001'',
     api_timezone = ''Asia/Kolkata'', api_utc_offset = ''+0530'',
     api_org = ''Reliance Jio Infocomm Limited'', api_asn = ''AS55836'',
     api_error = None, api_reason = None\<rparr>"

definition residentialResponse :: IpApiResponse where
  "residentialResponse =
    \<lparr>api_ip = ''192.168.1.1'', api_city = ''Mumbai'', api_region = ''Maharashtra'',
     api_country = ''IN'', api_country_code = ''IN'', api_postal = ''400001'',
     api_timezone = ''Asia/Kolkata'', api_utc_offset = ''+0530'',
     api_org = ''Test ISP'', api_asn = ''AS12345'',
     api_error = None, api_reason = None\<rparr>"

definition emptyWorld :: world where
  "emptyWorld = \<lparr>manualWhitelist = {}, manualBlacklist = {}, ipCache = None\<rparr>"

definition mockEnv :: "fetch_outcome \<Rightarrow> env" where
  "mockEnv outcome = \<lparr>network = (\<lambda>url. outcome), dateNow = 1000, perfStart = 0, perfEnd = 1\<rparr>"

definition nordVpnResponse :: IpApiResponse where
  "nordVpnResponse = jioResponse\<lparr>api_ip := ''185.1.1.1'', api_org := ''NordVPN'', api_asn := ''AS9009''\<rparr>"

definition amazonResponse :: IpApiResponse where
  "amazonResponse = jioResponse\<lparr>api_ip := ''52.1.1.1'', api_org := ''Amazon.com'', api_asn := ''AS16509''\<rparr>"

text \<open>
  A world whose cache already holds a reputation with only the Tor facet set. The parser
  never produces one (an organisation name containing \<open>tor exit\<close> also contains the VPN
  keyword \<open>tor\<close>), so this entry stands for one put there by other means.
\<close>

definition torEntryWorld :: world where
  "torEntryWorld =
    emptyWorld\<lparr>ipCache := Some
      ((LRUCache_new CACHE_CONFIG_ip_maxSize CACHE_CONFIG_ip_ttlMs)
         \<lparr>cache := [(''171.25.1.1'',
                     \<lparr>entry_value = createMockIpReputation\<lparr>ip := ''171.25.1.1'', isTor := True\<rparr>,
                      expiresAt = 5000, lastAccessed = 0\<rparr>)]\<rparr>)\<rparr>"

definition mockInput :: "string \<Rightarrow> DeviceInfo \<Rightarrow> BehaviorData \<Rightarrow> ClassifyInput" where
  "mockInput addr dev beh =
    \<lparr>input_ip = addr, fingerprint = createMockFingerprint dev, behavior = beh\<rparr>"

section \<open>Evaluation of the sample inputs\<close>

lemma mockInput_simps:
  "input_ip (mockInput a d b) = a"
  "device (fingerprint (mockInput a d b)) = d"
  "behavior (mockInput a d b) = b"
  by (simp_all add: mockInput_def createMockFingerprint_def)

lemma emptyWorld_lists:
  "\<not> isBlacklisted emptyWorld a" "\<not> isWhitelisted emptyWorld a"
  by (simp_all add: emptyWorld_def isBlacklisted_def isWhitelisted_def)

lemma createMockDevice_flags:
  "\<not> isAutomated createMockDevice" "\<not> isHeadless createMockDevice"
  "\<not> isFakeMobile createMockDevice" "type createMockDevice = ''desktop''"
  "browser createMockDevice = ''Chrome''"
  by (simp_all add: createMockDevice_def)

lemma isValidIp_sample: "isValidIp ''1.2.3.4''"
  by (simp add: isValidIp_def ipv4Regex_def rx_digit_def parseInt10_def isDigit_def digitVal_def)

lemma not_isValidIp_sample: "\<not> isValidIp ''localhost''"
  by (simp add: isValidIp_def ipv4Regex_def ipv6Regex_def rx_digit_def rx_hex_def)

lemma aborted_lookup:
  "fst (checkIpReputation emptyWorld (mockEnv Aborted) ''1.2.3.4'')
     = Inr (createUnknownResult ''1.2.3.4'' ''API error'')"
  by (simp add: checkIpReputation_def isValidIp_sample getIpCache_def emptyWorld_def
      LRUCache_new_def LRUCache_get_def Map_get_def fetchIpReputation_def mockEnv_def)

lemma createUnknownResult_facets:
  "\<not> isVpn (createUnknownResult a y)" "\<not> isTor (createUnknownResult a y)"
  "\<not> isDatacenter (createUnknownResult a y)" "\<not> isMobileCarrier (createUnknownResult a y)"
  "\<not> isProxy (createUnknownResult a y)"
  by (simp_all add: createUnknownResult_def)

lemma aborted_reachesRule10:
  assumes "\<not> isAutomated d" "\<not> isHeadless d" "\<not> isFakeMobile d"
  shows "reachesRule10 emptyWorld (mockEnv Aborted) (mockInput ''1.2.3.4'' d b)
           (createUnknownResult ''1.2.3.4'' ''API error'')"
  using assms
  by (simp add: reachesRule10_def mockInput_simps emptyWorld_lists
      aborted_lookup createUnknownResult_facets)

lemma toLowerCase_samples:
  "toLowerCase ''Reliance Jio Infocomm Limited'' = ''reliance jio infocomm limited''"
  "toLowerCase ''NordVPN'' = ''nordvpn''"
  "toLowerCase ''Amazon.com'' = ''amazon.com''"
  "toLowerCase ''Facebook'' = ''facebook''"
  "toLowerCase ''Chrome'' = ''chrome''"
  by (simp_all add: toLowerCase_def toLowerChar_def)

lemma isHighRiskBrowser_samples:
  "isHighRiskBrowser ''Facebook''" "\<not> isHighRiskBrowser ''Chrome''"
  by (simp_all add: isHighRiskBrowser_def toLowerCase_samples HIGH_RISK_BROWSERS_def)

lemmas parse_defs =
  parseIpApiResponse_def parseAsn_def parseInt10_def isDigit_def digitVal_def
  ALL_CARRIER_ASNS_def MOBILE_CARRIER_ASNS_india_def MOBILE_CARRIER_ASNS_usa_def
  MOBILE_CARRIER_ASNS_other_def DATACENTER_ASNS_def VPN_KEYWORDS_def DATACENTER_KEYWORDS_def

lemma jio_facets:
  "isMobileCarrier (parseIpApiResponse jioResponse)" "\<not> isVpn (parseIpApiResponse jioResponse)"
  "\<not> isTor (parseIpApiResponse jioResponse)" "\<not> isDatacenter (parseIpApiResponse jioResponse)"
  by (simp_all add: parse_defs jioResponse_def toLowerCase_samples)

lemma nordVpn_facets: "isVpn (parseIpApiResponse nordVpnResponse)"
  by (simp add: parse_defs nordVpnResponse_def jioResponse_def toLowerCase_samples)

lemma amazon_facets:
  "\<not> isVpn (parseIpApiResponse amazonResponse)" "\<not> isTor (parseIpApiResponse amazonResponse)"
  "isDatacenter (parseIpApiResponse amazonResponse)"
  by (simp_all add: parse_defs amazonResponse_def jioResponse_def toLowerCase_samples)

lemma isValidIp_samples:
  "isValidIp ''49.36.1.1''" "isValidIp ''185.1.1.1''" "isValidIp ''52.1.1.1''"
  "isValidIp ''171.25.1.1''"
  by (simp_all add: isValidIp_def ipv4Regex_def rx_digit_def parseInt10_def isDigit_def
      digitVal_def)

lemma answered_lookup:
  assumes "isValidIp a" "api_error d = None"
  shows "fst (checkIpReputation emptyWorld (mockEnv (Responded 200 (Json d))) a)
           = Inr (parseIpApiResponse d)"
  using assms
  by (simp add: checkIpReputation_def getIpCache_def emptyWorld_def LRUCache_new_def
      LRUCache_get_def Map_get_def fetchIpReputation_def mockEnv_def response_ok_def)

lemma sample_no_error:
  "api_error jioResponse = None" "api_error nordVpnResponse = None"
  "api_error amazonResponse = None"
  by (simp_all add: jioResponse_def nordVpnResponse_def amazonResponse_def)

lemma tor_lookup:
  "fst (checkIpReputation torEntryWorld (mockEnv Aborted) ''171.25.1.1'')
     = Inr (createMockIpReputation\<lparr>ip := ''171.25.1.1'', isTor := True, cached := True\<rparr>)"
  by (simp add: checkIpReputation_def isValidIp_samples getIpCache_def torEntryWorld_def
      emptyWorld_def LRUCache_new_def LRUCache_get_def Map_get_def Map_set_def Map_delete_def
      Map_has_def mockEnv_def Let_def)

lemma torEntryWorld_lists:
  "\<not> isBlacklisted torEntryWorld a" "\<not> isWhitelisted torEntryWorld a"
  by (simp_all add: torEntryWorld_def emptyWorld_def isBlacklisted_def isWhitelisted_def)

lemma listed_samples:
  "isBlacklisted (addToBlacklist emptyWorld a) a"
  "\<not> isBlacklisted (addToWhitelist emptyWorld a) a"
  "isWhitelisted (addToWhitelist emptyWorld a) a"
  by (simp_all add: isBlacklisted_def isWhitelisted_def addToBlacklist_def addToWhitelist_def
      emptyWorld_def)

section \<open>General facts\<close>

lemma checkIpReputation_returns:
  "\<exists>rep. fst (checkIpReputation w e addr) = Inr rep"
  by (auto simp: checkIpReputation_def split: prod.splits option.splits sum.splits)

text \<open>
  The keyword list for VPNs contains \<open>tor\<close>, so a parsed answer that has the Tor facet
  also has the VPN facet: through the parser rule 7 of the cascade is never the first to
  match.
\<close>

lemma startsWith_append: "startsWith s (k @ k') \<Longrightarrow> startsWith s k"
  by (induction s k rule: startsWith.induct) auto

lemma str_includes_append: "str_includes s (k @ k') \<Longrightarrow> str_includes s k"
  by (induction s) (auto dest: startsWith_append)

lemma tor_keyword: "''tor'' \<in> set VPN_KEYWORDS"
  by (simp add: VPN_KEYWORDS_def)

lemma parse_tor_implies_vpn:
  assumes "isTor (parseIpApiResponse d)"
  shows "isVpn (parseIpApiResponse d)"
proof -
  have "str_includes (toLowerCase (api_org d)) (''tor'' @ '' exit'') \<or>
        str_includes (toLowerCase (api_org d)) (''tor'' @ '' project'')"
    using assms by (simp add: parseIpApiResponse_def Let_def)
  then have "str_includes (toLowerCase (api_org d)) ''tor''"
    using str_includes_append by blast
  then have "list_ex (\<lambda>keyword. str_includes (toLowerCase (api_org d)) keyword) VPN_KEYWORDS"
    unfolding list_ex_iff using tor_keyword by blast
  then show ?thesis
    by (simp add: parseIpApiResponse_def Let_def)
qed

lemma analyzeBehavior_score_cases:
  "b_score (analyzeBehavior dt beh) \<in> {0, 40, 50, 60, 100}"
  by (simp add: analyzeBehavior_def Let_def)

lemma stage_label:
  "classification (classifyBehaviorStage e st dev beh rep) =
     (if b_score (analyzeBehavior (type dev) beh) \<ge> 80 then GOOD else WARN)"
  using analyzeBehavior_score_cases[of "type dev" beh]
  by (auto simp: classifyBehaviorStage_def createResult_def Let_def)

lemma classify_rule10:
  assumes "reachesRule10 w e inp rep"
  shows "fst (classify w e inp) =
    Inr (classifyBehaviorStage e (perfStart e) (device (fingerprint inp)) (behavior inp) rep)"
  using assms by (auto simp: reachesRule10_def classify_def Let_def split: prod.splits)

lemma Math_round_of_int: "Math_round (of_int k) = k"
  unfolding Math_round_def by linarith

lemma stage_score:
  assumes "\<not> isMobileCarrier rep" "\<not> isVpn rep" "\<not> isTor rep" "\<not> isDatacenter rep"
  shows "score (classifyBehaviorStage e st dev beh rep) =
     spec_compositeScore (spec_ipComponent rep) (spec_deviceComponent dev)
       (spec_behaviorComponent dev beh)"
  using assms
  by (simp add: classifyBehaviorStage_def createResult_def Let_def spec_compositeScore_def
      spec_ipComponent_def spec_deviceComponent_def spec_behaviorComponent_def
      calculateIpScore_def SCORING_WEIGHTS_ipReputation_def
      SCORING_WEIGHTS_deviceFingerprint_def SCORING_WEIGHTS_behavior_def)

lemma spec_compositeScore_samples:
  "spec_compositeScore 80 80 100 = 82" "spec_compositeScore 80 80 90 = 81"
  "spec_compositeScore 80 80 0 = 72"
  unfolding spec_compositeScore_def Math_round_def
  by (rule floor_unique; simp)+

lemma stage_sample:
  "classification (classifyBehaviorStage e st createMockDevice
      (createMockBehavior\<lparr>mouseMovements := 45\<rparr>) (createUnknownResult a y)) = GOOD"
  "score (classifyBehaviorStage e st createMockDevice
      (createMockBehavior\<lparr>mouseMovements := 45\<rparr>) (createUnknownResult a y)) = 82"
   apply (simp add: stage_label createMockDevice_flags analyzeBehavior_def
      desktop_mouseMovements_good_def createMockBehavior_def)
  apply (simp add: stage_score createUnknownResult_facets spec_ipComponent_def
      spec_deviceComponent_def spec_behaviorComponent_def createMockDevice_flags
      isHighRiskBrowser_samples analyzeBehavior_def desktop_mouseMovements_good_def
      createMockBehavior_def spec_compositeScore_samples)
  done

section \<open>The behaviour analyzer\<close>

text \<open>
  Claim C5. For a desktop device the analyzer returns score 100 and GOOD from 40 mouse
  movements on, score 60 and WARN from 20 to 39, score 40 and WARN below 20; for mobile
  and tablet devices the same tiers on the touch events with thresholds 7 and 3; for the
  device types bot and unknown it returns score 0 and BAD with the flag
  \<open>suspicious_device_type\<close>, whatever the counters are.
\<close>

theorem analyzeBehavior_tiers:
  "(dt = ''desktop'' \<longrightarrow>
      (mouseMovements beh \<ge> 40 \<longrightarrow>
         b_score (analyzeBehavior dt beh) = 100 \<and> b_classification (analyzeBehavior dt beh) = GOOD) \<and>
      (20 \<le> mouseMovements beh \<and> mouseMovements beh < 40 \<longrightarrow>
         b_score (analyzeBehavior dt beh) = 60 \<and> b_classification (analyzeBehavior dt beh) = WARN) \<and>
      (mouseMovements beh < 20 \<longrightarrow>
         b_score (analyzeBehavior dt beh) = 40 \<and> b_classification (analyzeBehavior dt beh) = WARN)) \<and>
   (dt = ''mobile'' \<or> dt = ''tablet'' \<longrightarrow>
      (touchEvents beh \<ge> 7 \<longrightarrow>
         b_score (analyzeBehavior dt beh) = 100 \<and> b_classification (analyzeBehavior dt beh) = GOOD) \<and>
      (3 \<le> touchEvents beh \<and> touchEvents beh < 7 \<longrightarrow>
         b_score (analyzeBehavior dt beh) = 60 \<and> b_classification (analyzeBehavior dt beh) = WARN) \<and>
      (touchEvents beh < 3 \<longrightarrow>
         b_score (analyzeBehavior dt beh) = 40 \<and> b_classification (analyzeBehavior dt beh) = WARN)) \<and>
   (dt = ''bot'' \<or> dt = ''unknown'' \<longrightarrow>
      b_score (analyzeBehavior dt beh) = 0 \<and> b_classification (analyzeBehavior dt beh) = BAD \<and>
      b_flags (analyzeBehavior dt beh) = [''suspicious_device_type''])"
  by (auto simp: analyzeBehavior_def Let_def desktop_mouseMovements_good_def
      desktop_mouseMovements_warn_def mobile_touchEvents_good_def mobile_touchEvents_warn_def)

theorem analyzeBehavior_tiers_witness:
  "b_classification (analyzeBehavior ''desktop'' (createMockBehavior\<lparr>mouseMovements := 40\<rparr>)) = GOOD \<and>
   b_score (analyzeBehavior ''desktop'' (createMockBehavior\<lparr>mouseMovements := 40\<rparr>)) = 100 \<and>
   b_classification (analyzeBehavior ''desktop'' (createMockBehavior\<lparr>mouseMovements := 39\<rparr>)) = WARN \<and>
   b_score (analyzeBehavior ''desktop'' (createMockBehavior\<lparr>mouseMovements := 39\<rparr>)) = 60 \<and>
   b_classification (analyzeBehavior ''desktop'' (createMockBehavior\<lparr>mouseMovements := 0\<rparr>)) = WARN \<and>
   b_score (analyzeBehavior ''desktop'' (createMockBehavior\<lparr>mouseMovements := 0\<rparr>)) = 40 \<and>
   b_classification (analyzeBehavior ''mobile'' (createMockBehavior\<lparr>touchEvents := 7\<rparr>)) = GOOD \<and>
   b_classification (analyzeBehavior ''tablet'' (createMockBehavior\<lparr>touchEvents := 6\<rparr>)) = WARN \<and>
   b_score (analyzeBehavior ''tablet'' (createMockBehavior\<lparr>touchEvents := 6\<rparr>)) = 60 \<and>
   b_score (analyzeBehavior ''mobile'' (createMockBehavior\<lparr>touchEvents := 0\<rparr>)) = 40 \<and>
   b_classification (analyzeBehavior ''bot'' (createMockBehavior\<lparr>mouseMovements := 100\<rparr>)) = BAD \<and>
   b_score (analyzeBehavior ''unknown'' (createMockBehavior\<lparr>touchEvents := 100\<rparr>)) = 0"
  using analyzeBehavior_tiers[of "''desktop''" "createMockBehavior\<lparr>mouseMovements := 40\<rparr>"]
        analyzeBehavior_tiers[of "''desktop''" "createMockBehavior\<lparr>mouseMovements := 39\<rparr>"]
        analyzeBehavior_tiers[of "''desktop''" "createMockBehavior\<lparr>mouseMovements := 0\<rparr>"]
        analyzeBehavior_tiers[of "''mobile''" "createMockBehavior\<lparr>touchEvents := 7\<rparr>"]
        analyzeBehavior_tiers[of "''tablet''" "createMockBehavior\<lparr>touchEvents := 6\<rparr>"]
        analyzeBehavior_tiers[of "''mobile''" "createMockBehavior\<lparr>touchEvents := 0\<rparr>"]
        analyzeBehavior_tiers[of "''bot''" "createMockBehavior\<lparr>mouseMovements := 100\<rparr>"]
        analyzeBehavior_tiers[of "''unknown''" "createMockBehavior\<lparr>touchEvents := 100\<rparr>"]
  by (simp add: createMockBehavior_def)

section \<open>The manual lists\<close>

text \<open>
  Claim C8. After \<open>addToWhitelist\<close> the address is on the whitelist and not on the
  blacklist, and after \<open>addToBlacklist\<close> it is on the blacklist and not on the whitelist,
  whatever the two lists held before: the two lookups are never both true for it.
\<close>

theorem manual_lists_exclusive:
  "isWhitelisted (addToWhitelist w addr) addr \<and> \<not> isBlacklisted (addToWhitelist w addr) addr \<and>
   isBlacklisted (addToBlacklist w addr) addr \<and> \<not> isWhitelisted (addToBlacklist w addr) addr"
  by (simp add: isWhitelisted_def isBlacklisted_def addToWhitelist_def addToBlacklist_def)

section \<open>The classification cascade\<close>

text \<open>
  Claim C1. \<open>classify\<close> always returns a result, and the first rule that matches, in the
  order deny list, allow list, \<open>isAutomated\<close>, \<open>isHeadless\<close>, \<open>isFakeMobile\<close>, \<open>isVpn\<close>,
  \<open>isTor\<close>, \<open>isDatacenter\<close>, \<open>isMobileCarrier\<close>, behaviour, alone fixes the verdict, the
  score and the flags, whatever the signals of the later rules are; the five rules before
  the reputation lookup return without touching the state. In particular an
  automated device whose address is on neither list is BAD with score 0: nothing is
  assumed there about the reputation or the behaviour counters.
\<close>

theorem classify_cascade:
  "\<exists>r. fst (classify w e inp) = Inr r \<and>
     (isBlacklisted w (input_ip inp) \<longrightarrow>
        classification r = BAD \<and> score r = 0 \<and> flags (details r) = [] \<and>
        snd (classify w e inp) = w) \<and>
     (\<not> isBlacklisted w (input_ip inp) \<and> isWhitelisted w (input_ip inp) \<longrightarrow>
        classification r = GOOD \<and> score r = 100 \<and> flags (details r) = [] \<and>
        snd (classify w e inp) = w) \<and>
     (\<not> isBlacklisted w (input_ip inp) \<and> \<not> isWhitelisted w (input_ip inp) \<longrightarrow>
        (isAutomated (device (fingerprint inp)) \<longrightarrow>
           classification r = BAD \<and> score r = 0 \<and>
           flags (details r) = [''webdriver_detected''] \<and> snd (classify w e inp) = w) \<and>
        (\<not> isAutomated (device (fingerprint inp)) \<and> isHeadless (device (fingerprint inp)) \<longrightarrow>
           classification r = BAD \<and> score r = 0 \<and>
           flags (details r) = [''headless_browser''] \<and> snd (classify w e inp) = w) \<and>
        (\<not> isAutomated (device (fingerprint inp)) \<and> \<not> isHeadless (device (fingerprint inp)) \<and>
         isFakeMobile (device (fingerprint inp)) \<longrightarrow>
           classification r = BAD \<and> score r = 0 \<and>
           flags (details r) = [''fake_mobile''] \<and> snd (classify w e inp) = w) \<and>
        (\<not> isAutomated (device (fingerprint inp)) \<and> \<not> isHeadless (device (fingerprint inp)) \<and>
         \<not> isFakeMobile (device (fingerprint inp)) \<longrightarrow>
           (\<exists>rep. fst (checkIpReputation w e (input_ip inp)) = Inr rep \<and>
              (isVpn rep \<longrightarrow>
                 classification r = BAD \<and> score r = 5 \<and>
                 flags (details r) = [''vpn_detected'']) \<and>
              (\<not> isVpn rep \<and> isTor rep \<longrightarrow>
                 classification r = BAD \<and> score r = 0 \<and>
                 flags (details r) = [''tor_detected'']) \<and>
              (\<not> isVpn rep \<and> \<not> isTor rep \<and> isDatacenter rep \<longrightarrow>
                 classification r = BAD \<and> score r = 10 \<and>
                 flags (details r) = [''datacenter_ip'']) \<and>
              (\<not> isVpn rep \<and> \<not> isTor rep \<and> \<not> isDatacenter rep \<and> isMobileCarrier rep \<longrightarrow>
                 classification r = GOOD \<and> score r = 95 \<and>
                 flags (details r) = [''mobile_carrier'']) \<and>
              (\<not> isVpn rep \<and> \<not> isTor rep \<and> \<not> isDatacenter rep \<and> \<not> isMobileCarrier rep \<longrightarrow>
                 r = classifyBehaviorStage e (perfStart e) (device (fingerprint inp))
                       (behavior inp) rep))))"
proof -
  obtain rep where rep: "fst (checkIpReputation w e (input_ip inp)) = Inr rep"
    using checkIpReputation_returns by blast
  show ?thesis
    using rep by (auto simp: classify_def Let_def createResult_def split: prod.splits)
qed

theorem classify_cascade_witness:
  "(\<exists>r. fst (classify (addToBlacklist emptyWorld ''49.36.1.1'') (mockEnv (Responded 200 (Json jioResponse)))
            (mockInput ''49.36.1.1'' createMockDevice (createMockBehavior\<lparr>mouseMovements := 100\<rparr>))) = Inr r \<and>
        classification r = BAD \<and> score r = 0) \<and>
   (\<exists>r. fst (classify (addToWhitelist emptyWorld ''185.1.1.1'') (mockEnv (Responded 200 (Json nordVpnResponse)))
            (mockInput ''185.1.1.1'' (createMockDevice\<lparr>isAutomated := True\<rparr>) createMockBehavior)) = Inr r \<and>
        classification r = GOOD \<and> score r = 100) \<and>
   (\<exists>r. fst (classify (emptyWorld) (mockEnv (Responded 200 (Json jioResponse)))
            (mockInput ''49.36.1.1'' (createMockDevice\<lparr>isAutomated := True\<rparr>) (createMockBehavior\<lparr>mouseMovements := 100\<rparr>))) = Inr r \<and>
        classification r = BAD \<and> score r = 0) \<and>
   (\<exists>r. fst (classify (emptyWorld) (mockEnv (Responded 200 (Json jioResponse)))
            (mockInput ''49.36.1.1'' (createMockDevice\<lparr>isHeadless := True\<rparr>) (createMockBehavior\<lparr>mouseMovements := 100\<rparr>))) = Inr r \<and>
        classification r = BAD \<and> score r = 0) \<and>
   (\<exists>r. fst (classify (emptyWorld) (mockEnv (Responded 200 (Json jioResponse)))
            (mockInput ''49.36.1.1'' (createMockDevice\<lparr>isFakeMobile := True\<rparr>) (createMockBehavior\<lparr>mouseMovements := 100\<rparr>))) = Inr r \<and>
        classification r = BAD \<and> score r = 0) \<and>
   (\<exists>r. fst (classify (emptyWorld) (mockEnv (Responded 200 (Json nordVpnResponse)))
            (mockInput ''185.1.1.1'' createMockDevice createMockBehavior)) = Inr r \<and>
        classification r = BAD \<and> score r = 5) \<and>
   (\<exists>r. fst (classify (torEntryWorld) (mockEnv Aborted)
            (mockInput ''171.25.1.1'' createMockDevice createMockBehavior)) = Inr r \<and>
        classification r = BAD \<and> score r = 0) \<and>
   (\<exists>r. fst (classify (emptyWorld) (mockEnv (Responded 200 (Json amazonResponse)))
            (mockInput ''52.1.1.1'' createMockDevice createMockBehavior)) = Inr r \<and>
        classification r = BAD \<and> score r = 10) \<and>
   (\<exists>r. fst (classify (emptyWorld) (mockEnv (Responded 200 (Json jioResponse)))
            (mockInput ''49.36.1.1'' createMockDevice createMockBehavior)) = Inr r \<and>
        classification r = GOOD \<and> score r = 95) \<and>
   (\<exists>r. fst (classify (emptyWorld) (mockEnv Aborted)
            (mockInput ''1.2.3.4'' createMockDevice (createMockBehavior\<lparr>mouseMovements := 45\<rparr>))) = Inr r \<and>
        classification r = GOOD \<and> score r = 82)"
proof -
  have r1: "\<exists>r. fst (classify (addToBlacklist emptyWorld ''49.36.1.1'') (mockEnv (Responded 200 (Json jioResponse)))
            (mockInput ''49.36.1.1'' createMockDevice (createMockBehavior\<lparr>mouseMovements := 100\<rparr>))) = Inr r \<and>
        classification r = BAD \<and> score r = 0"
    using classify_cascade[of "addToBlacklist emptyWorld ''49.36.1.1''" "mockEnv (Responded 200 (Json jioResponse))"
          "mockInput ''49.36.1.1'' createMockDevice (createMockBehavior\<lparr>mouseMovements := 100\<rparr>)"]
    by (simp add: mockInput_simps listed_samples) blast?
  have r2: "\<exists>r. fst (classify (addToWhitelist emptyWorld ''185.1.1.1'') (mockEnv (Responded 200 (Json nordVpnResponse)))
            (mockInput ''185.1.1.1'' (createMockDevice\<lparr>isAutomated := True\<rparr>) createMockBehavior)) = Inr r \<and>
        classification r = GOOD \<and> score r = 100"
    using classify_cascade[of "addToWhitelist emptyWorld ''185.1.1.1''" "mockEnv (Responded 200 (Json nordVpnResponse))"
          "mockInput ''185.1.1.1'' (createMockDevice\<lparr>isAutomated := True\<rparr>) createMockBehavior"]
    by (simp add: mockInput_simps listed_samples) blast?
  have r3: "\<exists>r. fst (classify (emptyWorld) (mockEnv (Responded 200 (Json jioResponse)))
            (mockInput ''49.36.1.1'' (createMockDevice\<lparr>isAutomated := True\<rparr>) (createMockBehavior\<lparr>mouseMovements := 100\<rparr>))) = Inr r \<and>
        classification r = BAD \<and> score r = 0"
    using classify_cascade[of "emptyWorld" "mockEnv (Responded 200 (Json jioResponse))"
          "mockInput ''49.36.1.1'' (createMockDevice\<lparr>isAutomated := True\<rparr>) (createMockBehavior\<lparr>mouseMovements := 100\<rparr>)"]
    by (simp add: mockInput_simps emptyWorld_lists) blast?
  have r4: "\<exists>r. fst (classify (emptyWorld) (mockEnv (Responded 200 (Json jioResponse)))
            (mockInput ''49.36.1.1'' (createMockDevice\<lparr>isHeadless := True\<rparr>) (createMockBehavior\<lparr>mouseMovements := 100\<rparr>))) = Inr r \<and>
        classification r = BAD \<and> score r = 0"
    using classify_cascade[of "emptyWorld" "mockEnv (Responded 200 (Json jioResponse))"
          "mockInput ''49.36.1.1'' (createMockDevice\<lparr>isHeadless := True\<rparr>) (createMockBehavior\<lparr>mouseMovements := 100\<rparr>)"]
    by (simp add: mockInput_simps emptyWorld_lists createMockDevice_def) blast?
  have r5: "\<exists>r. fst (classify (emptyWorld) (mockEnv (Responded 200 (Json jioResponse)))
            (mockInput ''49.36.1.1'' (createMockDevice\<lparr>isFakeMobile := True\<rparr>) (createMockBehavior\<lparr>mouseMovements := 100\<rparr>))) = Inr r \<and>
        classification r = BAD \<and> score r = 0"
    using classify_cascade[of "emptyWorld" "mockEnv (Responded 200 (Json jioResponse))"
          "mockInput ''49.36.1.1'' (createMockDevice\<lparr>isFakeMobile := True\<rparr>) (createMockBehavior\<lparr>mouseMovements := 100\<rparr>)"]
    by (simp add: mockInput_simps emptyWorld_lists createMockDevice_def) blast?
  have r6: "\<exists>r. fst (classify (emptyWorld) (mockEnv (Responded 200 (Json nordVpnResponse)))
            (mockInput ''185.1.1.1'' createMockDevice createMockBehavior)) = Inr r \<and>
        classification r = BAD \<and> score r = 5"
    using classify_cascade[of "emptyWorld" "mockEnv (Responded 200 (Json nordVpnResponse))"
          "mockInput ''185.1.1.1'' createMockDevice createMockBehavior"]
    by (simp add: mockInput_simps emptyWorld_lists createMockDevice_flags answered_lookup isValidIp_samples sample_no_error nordVpn_facets) blast?
  have r7: "\<exists>r. fst (classify (torEntryWorld) (mockEnv Aborted)
            (mockInput ''171.25.1.1'' createMockDevice createMockBehavior)) = Inr r \<and>
        classification r = BAD \<and> score r = 0"
    using classify_cascade[of "torEntryWorld" "mockEnv Aborted"
          "mockInput ''171.25.1.1'' createMockDevice createMockBehavior"]
    by (simp add: mockInput_simps torEntryWorld_lists createMockDevice_flags tor_lookup createMockIpReputation_def) blast?
  have r8: "\<exists>r. fst (classify (emptyWorld) (mockEnv (Responded 200 (Json amazonResponse)))
            (mockInput ''52.1.1.1'' createMockDevice createMockBehavior)) = Inr r \<and>
        classification r = BAD \<and> score r = 10"
    using classify_cascade[of "emptyWorld" "mockEnv (Responded 200 (Json amazonResponse))"
          "mockInput ''52.1.1.1'' createMockDevice createMockBehavior"]
    by (simp add: mockInput_simps emptyWorld_lists createMockDevice_flags answered_lookup isValidIp_samples sample_no_error amazon_facets) blast?
  have r9: "\<exists>r. fst (classify (emptyWorld) (mockEnv (Responded 200 (Json jioResponse)))
            (mockInput ''49.36.1.1'' createMockDevice createMockBehavior)) = Inr r \<and>
        classification r = GOOD \<and> score r = 95"
    using classify_cascade[of "emptyWorld" "mockEnv (Responded 200 (Json jioResponse))"
          "mockInput ''49.36.1.1'' createMockDevice createMockBehavior"]
    by (simp add: mockInput_simps emptyWorld_lists createMockDevice_flags answered_lookup isValidIp_samples sample_no_error jio_facets) blast?
  have r10: "\<exists>r. fst (classify (emptyWorld) (mockEnv Aborted)
            (mockInput ''1.2.3.4'' createMockDevice (createMockBehavior\<lparr>mouseMovements := 45\<rparr>))) = Inr r \<and>
        classification r = GOOD \<and> score r = 82"
    using classify_cascade[of "emptyWorld" "mockEnv Aborted"
          "mockInput ''1.2.3.4'' createMockDevice (createMockBehavior\<lparr>mouseMovements := 45\<rparr>)"]
    by (simp add: mockInput_simps emptyWorld_lists createMockDevice_flags aborted_lookup createUnknownResult_facets stage_sample) blast?
  show ?thesis
    using r1 r2 r3 r4 r5 r6 r7 r8 r9 r10 by blast
qed

text \<open>
  Claim C2. For an input that reaches rule 10 the label is GOOD when the analyzer's score
  for the device type is at least 80 and WARN otherwise, never BAD; and the label is the
  same for every browser string, so the high-risk penalty, which the code subtracts from
  the score before it computes the label, never moves it across the boundary.
\<close>

theorem rule10_label:
  assumes "reachesRule10 w e inp rep"
  shows "\<exists>r. fst (classify w e inp) = Inr r \<and>
           classification r =
             (if b_score (analyzeBehavior (type (device (fingerprint inp))) (behavior inp)) \<ge> 80
              then GOOD else WARN) \<and>
           classification r \<noteq> BAD \<and>
           (\<forall>br. \<exists>r'. fst (classify w e
                     (inp\<lparr>fingerprint := (fingerprint inp)
                        \<lparr>device := (device (fingerprint inp))\<lparr>browser := br\<rparr>\<rparr>\<rparr>)) = Inr r' \<and>
                   classification r' = classification r)"
proof -
  have other: "reachesRule10 w e
      (inp\<lparr>fingerprint := (fingerprint inp)\<lparr>device := (device (fingerprint inp))\<lparr>browser := br\<rparr>\<rparr>\<rparr>) rep"
    for br
    using assms by (simp add: reachesRule10_def)
  show ?thesis
    using classify_rule10[OF assms] classify_rule10[OF other]
    by (simp add: stage_label)
qed

theorem rule10_label_witness:
  "(\<exists>r. fst (classify emptyWorld (mockEnv Aborted)
             (mockInput ''1.2.3.4'' (createMockDevice\<lparr>browser := ''Facebook''\<rparr>)
                (createMockBehavior\<lparr>mouseMovements := 45\<rparr>))) = Inr r \<and>
        classification r = GOOD) \<and>
   (\<exists>r. fst (classify emptyWorld (mockEnv Aborted)
             (mockInput ''1.2.3.4'' (createMockDevice\<lparr>type := ''bot''\<rparr>)
                (createMockBehavior\<lparr>mouseMovements := 45\<rparr>))) = Inr r \<and>
        classification r = WARN)"
proof -
  have a: "reachesRule10 emptyWorld (mockEnv Aborted)
      (mockInput ''1.2.3.4'' (createMockDevice\<lparr>browser := ''Facebook''\<rparr>)
         (createMockBehavior\<lparr>mouseMovements := 45\<rparr>))
      (createUnknownResult ''1.2.3.4'' ''API error'')"
    by (rule aborted_reachesRule10) (simp_all add: createMockDevice_def)
  have b: "reachesRule10 emptyWorld (mockEnv Aborted)
      (mockInput ''1.2.3.4'' (createMockDevice\<lparr>type := ''bot''\<rparr>)
         (createMockBehavior\<lparr>mouseMovements := 45\<rparr>))
      (createUnknownResult ''1.2.3.4'' ''API error'')"
    by (rule aborted_reachesRule10) (simp_all add: createMockDevice_def)
  have "\<exists>r. fst (classify emptyWorld (mockEnv Aborted)
             (mockInput ''1.2.3.4'' (createMockDevice\<lparr>browser := ''Facebook''\<rparr>)
                (createMockBehavior\<lparr>mouseMovements := 45\<rparr>))) = Inr r \<and>
        classification r = GOOD"
    using rule10_label[OF a]
    by (auto simp: mockInput_simps createMockDevice_def analyzeBehavior_def
        desktop_mouseMovements_good_def createMockBehavior_def)
  moreover have "\<exists>r. fst (classify emptyWorld (mockEnv Aborted)
             (mockInput ''1.2.3.4'' (createMockDevice\<lparr>type := ''bot''\<rparr>)
                (createMockBehavior\<lparr>mouseMovements := 45\<rparr>))) = Inr r \<and>
        classification r = WARN"
    using rule10_label[OF b]
    by (auto simp: mockInput_simps createMockDevice_def analyzeBehavior_def)
  ultimately show ?thesis by blast
qed

text \<open>
  The exact value of the weighted sum is a whole number for every input, so rounding does
  not change it; the score computed in double precision rounds to the same integer.
\<close>

lemma composite_integral:
  assumes "5 dvd ipc" "10 dvd devc" "10 dvd bs"
  shows "\<exists>k. (of_int ipc * (60 / 100) + of_int devc * (30 / 100) + of_int bs * (10 / 100) :: rat)
           = of_int k"
proof -
  obtain a b c where "ipc = 5 * a" "devc = 10 * b" "bs = 10 * c"
    using assms by (auto simp: dvd_def)
  then have "(of_int ipc * (60 / 100) + of_int devc * (30 / 100) + of_int bs * (10 / 100) :: rat)
      = of_int (3 * a + 3 * b + c)"
    by simp
  then show ?thesis by blast
qed

lemma adjusted_score_dvd:
  "10 dvd (if hr then max 0 (b_score (analyzeBehavior dt beh) - 10)
           else b_score (analyzeBehavior dt beh))"
  using analyzeBehavior_score_cases[of dt beh] by auto

lemma ip_component_dvd: "5 dvd (if isMobileCarrier rep then 60 else calculateIpScore rep)"
  by (simp add: calculateIpScore_def)

lemma stage_score_exact:
  "of_int (score (classifyBehaviorStage e st dev beh rep)) =
     (of_int (if isMobileCarrier rep then 60 else calculateIpScore rep)
        * (SCORING_WEIGHTS_ipReputation / 100)
      + of_int (if isFakeMobile dev \<or> isAutomated dev then 0 else 80)
        * (SCORING_WEIGHTS_deviceFingerprint / 100)
      + of_int (if isHighRiskBrowser (browser dev)
                then max 0 (b_score (analyzeBehavior (type dev) beh) - 10)
                else b_score (analyzeBehavior (type dev) beh))
        * (SCORING_WEIGHTS_behavior / 100) :: rat)"
proof -
  have d: "10 dvd (if isFakeMobile dev \<or> isAutomated dev then 0 else (80::int))"
    by simp
  obtain k where k:
    "(of_int (if isMobileCarrier rep then 60 else calculateIpScore rep) * (60 / 100)
      + of_int (if isFakeMobile dev \<or> isAutomated dev then 0 else 80) * (30 / 100)
      + of_int (if isHighRiskBrowser (browser dev)
                then max 0 (b_score (analyzeBehavior (type dev) beh) - 10)
                else b_score (analyzeBehavior (type dev) beh)) * (10 / 100) :: rat) = of_int k"
    using composite_integral[OF ip_component_dvd d adjusted_score_dvd] by blast
  have "score (classifyBehaviorStage e st dev beh rep) = k"
    unfolding classifyBehaviorStage_def createResult_def Let_def
      SCORING_WEIGHTS_ipReputation_def SCORING_WEIGHTS_deviceFingerprint_def
      SCORING_WEIGHTS_behavior_def
    by (simp only: FraudResult.select_convs k Math_round_of_int)
  then show ?thesis
    by (simp only: k SCORING_WEIGHTS_ipReputation_def SCORING_WEIGHTS_deviceFingerprint_def
      SCORING_WEIGHTS_behavior_def)
qed

text \<open>
  Claim C3. For an input that reaches rule 10 the reported score is the rounded weighted
  sum 0.6, 0.3, 0.1 of the three components as the design words them. (The code takes 60,
  not 95, as the IP component of a carrier address, but a carrier address is decided by
  rule 9 and never reaches this computation.)
\<close>

theorem rule10_score:
  assumes "reachesRule10 w e inp rep"
  shows "\<exists>r. fst (classify w e inp) = Inr r \<and>
           score r = spec_compositeScore (spec_ipComponent rep)
                       (spec_deviceComponent (device (fingerprint inp)))
                       (spec_behaviorComponent (device (fingerprint inp)) (behavior inp))"
  using classify_rule10[OF assms] assms
  by (simp add: stage_score reachesRule10_def)

theorem rule10_score_witness:
  "\<exists>r. fst (classify emptyWorld (mockEnv Aborted)
            (mockInput ''1.2.3.4'' (createMockDevice\<lparr>browser := ''Facebook''\<rparr>)
               (createMockBehavior\<lparr>mouseMovements := 45\<rparr>))) = Inr r \<and>
        score r = 81"
proof -
  have a: "reachesRule10 emptyWorld (mockEnv Aborted)
      (mockInput ''1.2.3.4'' (createMockDevice\<lparr>browser := ''Facebook''\<rparr>)
         (createMockBehavior\<lparr>mouseMovements := 45\<rparr>))
      (createUnknownResult ''1.2.3.4'' ''API error'')"
    by (rule aborted_reachesRule10) (simp_all add: createMockDevice_def)
  show ?thesis
    using rule10_score[OF a]
    by (simp add: mockInput_simps createMockDevice_def createUnknownResult_def
        spec_ipComponent_def spec_deviceComponent_def spec_behaviorComponent_def
        isHighRiskBrowser_samples analyzeBehavior_def desktop_mouseMovements_good_def
        createMockBehavior_def spec_compositeScore_samples)
qed

text \<open>
  Claim C4. When the address is on neither list, the three device flags are clear and the
  resolved reputation is a mobile carrier that is neither VPN, Tor nor datacenter, the
  result is GOOD with score 95 and the single flag \<open>mobile_carrier\<close>, and it is the same
  result for every behaviour record: the analyzer is not consulted.
\<close>

theorem carrier_bypasses_behavior:
  assumes "\<not> isBlacklisted w (input_ip inp)" "\<not> isWhitelisted w (input_ip inp)"
    and "\<not> isAutomated (device (fingerprint inp))" "\<not> isHeadless (device (fingerprint inp))"
        "\<not> isFakeMobile (device (fingerprint inp))"
    and "fst (checkIpReputation w e (input_ip inp)) = Inr rep"
    and "\<not> isVpn rep" "\<not> isTor rep" "\<not> isDatacenter rep" "isMobileCarrier rep"
  shows "\<exists>r. fst (classify w e inp) = Inr r \<and> classification r = GOOD \<and> score r = 95 \<and>
           flags (details r) = [''mobile_carrier''] \<and>
           (\<forall>beh. classify w e (inp\<lparr>behavior := beh\<rparr>) = classify w e inp)"
  using assms by (auto simp: classify_def Let_def createResult_def split: prod.splits)

theorem carrier_bypasses_behavior_witness:
  "\<exists>r. fst (classify emptyWorld (mockEnv (Responded 200 (Json jioResponse)))
            (mockInput ''49.36.1.1'' (createMockDevice\<lparr>type := ''mobile''\<rparr>)
               createMockBehavior)) = Inr r \<and>
        classification r = GOOD \<and> score r = 95"
  using carrier_bypasses_behavior[of emptyWorld
          "mockInput ''49.36.1.1'' (createMockDevice\<lparr>type := ''mobile''\<rparr>) createMockBehavior"
          "mockEnv (Responded 200 (Json jioResponse))" "parseIpApiResponse jioResponse"]
  by (simp add: mockInput_simps emptyWorld_lists createMockDevice_def answered_lookup
      isValidIp_samples sample_no_error jio_facets) blast?

text \<open>
  Claim C10. When the address is on neither manual list, the label returned by
  \<open>classify\<close> is the label \<open>classifySync\<close> returns on the reputation that the resolver
  produces for the address, for every device type string (bot and unknown included) and
  every browser string.
\<close>

theorem classify_agrees_with_classifySync:
  assumes "\<not> isBlacklisted w (input_ip inp)" "\<not> isWhitelisted w (input_ip inp)"
    and "fst (checkIpReputation w e (input_ip inp)) = Inr rep"
  shows "\<exists>r. fst (classify w e inp) = Inr r \<and>
           classification r =
             sync_classification (classifySync rep (fingerprint inp) (behavior inp))"
proof -
  have sync_stage:
    "sync_classification (classifySync rep (fingerprint inp) (behavior inp)) =
       classification (classifyBehaviorStage e (perfStart e) (device (fingerprint inp))
                         (behavior inp) rep)"
    if "\<not> isAutomated (device (fingerprint inp))" "\<not> isHeadless (device (fingerprint inp))"
       "\<not> isFakeMobile (device (fingerprint inp))"
       "\<not> isVpn rep" "\<not> isTor rep" "\<not> isDatacenter rep" "\<not> isMobileCarrier rep"
    using that
    by (auto simp: stage_label classifySync_def analyzeBehavior_def Let_def
        desktop_mouseMovements_good_def desktop_mouseMovements_warn_def
        mobile_touchEvents_good_def mobile_touchEvents_warn_def)
  show ?thesis
    using assms sync_stage
    by (auto simp: classify_def Let_def createResult_def classifySync_def split: prod.splits)
qed

theorem classify_agrees_with_classifySync_witness:
  "\<exists>r. fst (classify emptyWorld (mockEnv Aborted)
            (mockInput ''1.2.3.4'' (createMockDevice\<lparr>type := ''bot'', browser := ''Facebook''\<rparr>)
               (createMockBehavior\<lparr>mouseMovements := 45\<rparr>))) = Inr r \<and>
        classification r = WARN \<and>
        sync_classification
          (classifySync (createUnknownResult ''1.2.3.4'' ''API error'')
             (createMockFingerprint (createMockDevice\<lparr>type := ''bot'', browser := ''Facebook''\<rparr>))
             (createMockBehavior\<lparr>mouseMovements := 45\<rparr>)) = WARN"
  using classify_agrees_with_classifySync[of emptyWorld
          "mockInput ''1.2.3.4'' (createMockDevice\<lparr>type := ''bot'', browser := ''Facebook''\<rparr>)
             (createMockBehavior\<lparr>mouseMovements := 45\<rparr>)"
          "mockEnv Aborted" "createUnknownResult ''1.2.3.4'' ''API error''"]
  by (simp add: mockInput_simps emptyWorld_lists aborted_lookup)
     (auto simp: mockInput_def classifySync_def createMockFingerprint_def createMockDevice_def
        createUnknownResult_def)

section \<open>The IP validator\<close>

lemma Nil_in_conc: "[] \<in> conc A B \<longleftrightarrow> [] \<in> A \<and> [] \<in> B"
  by (auto simp: conc_def)

lemma Nil_in_pow: "[] \<in> pow A k \<longleftrightarrow> k = 0 \<or> [] \<in> A"
  by (induction k) (auto simp: Nil_in_conc)

lemma nullable_iff: "nullable r \<longleftrightarrow> [] \<in> lang r"
proof (induction r)
  case (Rep m n r)
  have "[] \<in> lang (Rep m n r) \<longleftrightarrow> (\<exists>k. m \<le> k \<and> k \<le> n \<and> (k = 0 \<or> [] \<in> lang r))"
    by (auto simp: Nil_in_pow)
  also have "\<dots> \<longleftrightarrow> m \<le> n \<and> (m = 0 \<or> [] \<in> lang r)"
    by (metis le_zero_eq order_refl order_trans)
  finally show ?case using Rep by simp
qed (auto simp: Nil_in_conc)

lemma Deriv_conc:
  "Deriv c (conc A B) = conc (Deriv c A) B \<union> (if [] \<in> A then Deriv c B else {})"
  by (auto simp: Deriv_def conc_def Cons_eq_append_conv)

lemma conc_mono: "B \<subseteq> B' \<Longrightarrow> conc A B \<subseteq> conc A B'"
  by (auto simp: conc_def)

lemma pow_step_Nil: "[] \<in> A \<Longrightarrow> pow A n \<subseteq> pow A (Suc n)"
  by (auto simp: conc_def)

lemma Deriv_pow: "Deriv c (pow A (Suc n)) = conc (Deriv c A) (pow A n)"
proof (induction n)
  case 0
  show ?case by (auto simp: Deriv_def conc_def)
next
  case (Suc n)
  have "Deriv c (pow A (Suc (Suc n))) =
          conc (Deriv c A) (pow A (Suc n)) \<union> (if [] \<in> A then Deriv c (pow A (Suc n)) else {})"
    by (simp only: pow.simps Deriv_conc)
  moreover have "Deriv c (pow A (Suc n)) \<subseteq> conc (Deriv c A) (pow A (Suc n))" if "[] \<in> A"
    unfolding Suc.IH using conc_mono[OF pow_step_Nil[OF that]] by blast
  ultimately show ?case by auto
qed

lemma conc_UN: "conc A (\<Union>k \<in> I. B k) = (\<Union>k \<in> I. conc A (B k))"
  by (auto simp: conc_def)

lemma Deriv_UN: "Deriv c (\<Union>k \<in> I. B k) = (\<Union>k \<in> I. Deriv c (B k))"
  by (auto simp: Deriv_def)

lemma Deriv_Rep:
  assumes "m \<le> n" "0 < n"
  shows "Deriv c (\<Union>k \<in> {m..n}. pow A k) = conc (Deriv c A) (\<Union>k \<in> {m - 1..n - 1}. pow A k)"
proof -
  have "(\<Union>k \<in> {m..n}. Deriv c (pow A k)) = (\<Union>j \<in> {m - 1..n - 1}. conc (Deriv c A) (pow A j))"
  proof (intro equalityI subsetI)
    fix w assume "w \<in> (\<Union>k \<in> {m..n}. Deriv c (pow A k))"
    then obtain k where k: "m \<le> k" "k \<le> n" "w \<in> Deriv c (pow A k)" by auto
    have "k \<noteq> 0" using k(3) by (cases k) (auto simp: Deriv_def)
    then obtain j where kj: "k = Suc j" by (cases k) auto
    then have j: "w \<in> conc (Deriv c A) (pow A j)"
      using k(3) by (simp add: Deriv_pow del: pow.simps(2))
    moreover have "m - 1 \<le> j" "j \<le> n - 1"
      using k kj by auto
    ultimately show "w \<in> (\<Union>j \<in> {m - 1..n - 1}. conc (Deriv c A) (pow A j))"
      by (meson UN_I atLeastAtMost_iff)
  next
    fix w assume "w \<in> (\<Union>j \<in> {m - 1..n - 1}. conc (Deriv c A) (pow A j))"
    then obtain j where j: "m - 1 \<le> j" "j \<le> n - 1" "w \<in> conc (Deriv c A) (pow A j)" by auto
    then have "m \<le> Suc j" "Suc j \<le> n" "w \<in> Deriv c (pow A (Suc j))"
      using assms by (auto simp: Deriv_pow simp del: pow.simps(2))
    then show "w \<in> (\<Union>k \<in> {m..n}. Deriv c (pow A k))"
      by (meson UN_I atLeastAtMost_iff)
  qed
  then show ?thesis by (simp add: Deriv_UN conc_UN)
qed

lemma lang_deriv: "lang (deriv c r) = Deriv c (lang r)"
proof (induction r)
  case (Rep m n r)
  show ?case
  proof (cases "m \<le> n \<and> 0 < n")
    case True
    then show ?thesis using Rep by (simp add: Deriv_Rep)
  next
    case False
    then have "lang (Rep m n r) \<subseteq> {[]}" by (auto simp: not_le)
    then have e: "Deriv c (lang (Rep m n r)) = {}" by (auto simp: Deriv_def)
    have "deriv c (Rep m n r) = Nul" using False by auto
    then show ?thesis by (simp only: e lang.simps(1))
  qed
next
  case (Cat r1 r2)
  then show ?case by (simp add: Deriv_conc nullable_iff)
qed (auto simp: Deriv_def)

lemma rx_test_iff: "rx_test r s \<longleftrightarrow> s \<in> lang r"
  by (induction s arbitrary: r) (simp_all add: nullable_iff lang_deriv Deriv_def)

lemma pow_Cls: "w \<in> pow (lang (Cls cs)) k \<longleftrightarrow> length w = k \<and> set w \<subseteq> set cs"
proof (induction k arbitrary: w)
  case 0
  show ?case by auto
next
  case (Suc k)
  show ?case
  proof
    assume "w \<in> pow (lang (Cls cs)) (Suc k)"
    then obtain c v where "w = c # v" "c \<in> set cs" "v \<in> pow (lang (Cls cs)) k"
      by (auto simp: conc_def)
    then show "length w = Suc k \<and> set w \<subseteq> set cs"
      using Suc.IH[of v] by simp
  next
    assume a: "length w = Suc k \<and> set w \<subseteq> set cs"
    then obtain c v where w: "w = c # v" by (cases w) auto
    then have "[c] \<in> lang (Cls cs)" "v \<in> pow (lang (Cls cs)) k"
      using a Suc.IH[of v] by auto
    then show "w \<in> pow (lang (Cls cs)) (Suc k)"
      unfolding w pow.simps conc_def by (metis (mono_tags, lifting) append_Cons append_Nil mem_Collect_eq)
  qed
qed

lemma lang_Rep_Cls:
  "w \<in> lang (Rep m n (Cls cs)) \<longleftrightarrow> m \<le> length w \<and> length w \<le> n \<and> set w \<subseteq> set cs"
  by (auto simp: pow_Cls simp del: lang.simps(3) pow.simps)

lemma lang_octet: "w \<in> lang (Rep 1 3 rx_digit) \<longleftrightarrow> octetText w"
proof -
  have "w \<noteq> [] \<longleftrightarrow> 1 \<le> length w"
    by (cases w) auto
  moreover have "list_all isDigit w \<longleftrightarrow> set w \<subseteq> set ''0123456789''"
    unfolding list_all_iff isDigit_def by blast
  ultimately show ?thesis
    by (simp only: rx_digit_def lang_Rep_Cls octetText_def)
qed

lemma conc_Nil_right: "conc A {[]} = A"
  by (auto simp: conc_def)

lemma in_conc: "w \<in> conc A B \<longleftrightarrow> (\<exists>u v. w = u @ v \<and> u \<in> A \<and> v \<in> B)"
  by (auto simp: conc_def)

lemma lang_ipv4:
  "s \<in> lang ipv4Regex \<longleftrightarrow>
     (\<exists>a b c d. s = a @ CHR ''.'' # b @ CHR ''.'' # c @ CHR ''.'' # d \<and>
        octetText a \<and> octetText b \<and> octetText c \<and> octetText d)"
proof -
  define Oc where "Oc = lang (Rep 1 3 rx_digit)"
  define X where "X = conc Oc (lang (Cls ''.''))"
  have Oc: "p \<in> Oc \<longleftrightarrow> octetText p" for p
    unfolding Oc_def by (rule lang_octet)
  have X: "x \<in> X \<longleftrightarrow> (\<exists>p. octetText p \<and> x = p @ ''.'')" for x
    unfolding X_def conc_def by (auto simp: Oc)
  have r33: "lang (Rep 3 3 r) = pow (lang r) 3" for r
    by (simp del: pow.simps)
  have "lang ipv4Regex = conc (pow X 3) Oc"
    unfolding ipv4Regex_def X_def Oc_def lang.simps(5) r33 by (rule refl)
  also have "pow X 3 = conc X (conc X X)"
    by (simp add: numeral_3_eq_3 conc_Nil_right)
  finally have "s \<in> lang ipv4Regex \<longleftrightarrow>
      (\<exists>x1 x2 x3 d. x1 \<in> X \<and> x2 \<in> X \<and> x3 \<in> X \<and> d \<in> Oc \<and> s = (x1 @ x2 @ x3) @ d)"
    by (simp only: in_conc) blast
  also have "\<dots> \<longleftrightarrow> (\<exists>a b c d. s = a @ CHR ''.'' # b @ CHR ''.'' # c @ CHR ''.'' # d \<and>
        octetText a \<and> octetText b \<and> octetText c \<and> octetText d)"
  proof
    assume "\<exists>x1 x2 x3 d. x1 \<in> X \<and> x2 \<in> X \<and> x3 \<in> X \<and> d \<in> Oc \<and> s = (x1 @ x2 @ x3) @ d"
    then obtain x1 x2 x3 d where
      x: "x1 \<in> X" "x2 \<in> X" "x3 \<in> X" "d \<in> Oc" "s = (x1 @ x2 @ x3) @ d"
      by blast
    obtain a b c where
      p: "octetText a" "x1 = a @ ''.''" "octetText b" "x2 = b @ ''.''"
         "octetText c" "x3 = c @ ''.''"
      using x(1,2,3) unfolding X by blast
    have "s = a @ CHR ''.'' # b @ CHR ''.'' # c @ CHR ''.'' # d"
      unfolding x(5) p by simp
    then show "\<exists>a b c d. s = a @ CHR ''.'' # b @ CHR ''.'' # c @ CHR ''.'' # d \<and>
        octetText a \<and> octetText b \<and> octetText c \<and> octetText d"
      using p x(4) Oc by blast
  next
    assume "\<exists>a b c d. s = a @ CHR ''.'' # b @ CHR ''.'' # c @ CHR ''.'' # d \<and>
        octetText a \<and> octetText b \<and> octetText c \<and> octetText d"
    then obtain a b c d where
      q: "s = a @ CHR ''.'' # b @ CHR ''.'' # c @ CHR ''.'' # d"
         "octetText a" "octetText b" "octetText c" "octetText d"
      by blast
    have "a @ ''.'' \<in> X" "b @ ''.'' \<in> X" "c @ ''.'' \<in> X" "d \<in> Oc"
      using q unfolding X Oc by blast+
    moreover have "s = ((a @ ''.'') @ (b @ ''.'') @ (c @ ''.'')) @ d"
      unfolding q(1) by simp
    ultimately show "\<exists>x1 x2 x3 d. x1 \<in> X \<and> x2 \<in> X \<and> x3 \<in> X \<and> d \<in> Oc \<and> s = (x1 @ x2 @ x3) @ d"
      by blast
  qed
  finally show ?thesis .
qed

lemma split_on_nosep: "d \<notin> set a \<Longrightarrow> split_on d a = [a]"
  by (induction a) auto

lemma split_on_app: "d \<notin> set a \<Longrightarrow> split_on d (a @ d # rest) = a # split_on d rest"
  by (induction a) auto

lemma dot_not_digit: "\<not> isDigit CHR ''.''"
  by (simp add: isDigit_def)

lemma octetText_no_dot: "octetText p \<Longrightarrow> CHR ''.'' \<notin> set p"
  unfolding octetText_def list_all_iff using dot_not_digit by blast

lemma split_on_ipv4:
  assumes "octetText a" "octetText b" "octetText c" "octetText d"
  shows "split_on CHR ''.'' (a @ CHR ''.'' # b @ CHR ''.'' # c @ CHR ''.'' # d) = [a, b, c, d]"
  using assms by (simp add: split_on_app split_on_nosep octetText_no_dot)

lemma parseInt10_octetText: "octetText p \<Longrightarrow> parseInt10 p = Some (decimalValue p)"
  by (simp add: parseInt10_def decimalValue_def octetText_def list_all_iff
      takeWhile_eq_all_conv[THEN iffD2])

lemma octet_check:
  "octetText p \<Longrightarrow>
     (case parseInt10 p of None \<Rightarrow> False | Some num \<Rightarrow> num \<ge> 0 \<and> num \<le> 255) = isOctet p"
  by (simp add: parseInt10_octetText isOctet_def octetText_def)

text \<open>
  The validator accepts exactly: well-formed IPv4 addresses whose octets are written with
  at most three digits, and the strings that match the IPv6 pattern without matching the
  IPv4 one.
\<close>

lemma isValidIp_iff:
  "isValidIp s \<longleftrightarrow>
     (if rx_test ipv4Regex s then spec_wellFormedIPv4 s else spec_plausibleIPv6 s)"
proof (cases "rx_test ipv4Regex s")
  case True
  then obtain a b c d where
    s: "s = a @ CHR ''.'' # b @ CHR ''.'' # c @ CHR ''.'' # d"
    and o: "octetText a" "octetText b" "octetText c" "octetText d"
    unfolding rx_test_iff lang_ipv4 by blast
  have sp: "split_on CHR ''.'' s = [a, b, c, d]"
    unfolding s using o by (rule split_on_ipv4)
  have "isValidIp s = (isOctet a \<and> isOctet b \<and> isOctet c \<and> isOctet d)"
    using True o by (simp add: isValidIp_def sp octet_check)
  moreover have "spec_wellFormedIPv4 s = (isOctet a \<and> isOctet b \<and> isOctet c \<and> isOctet d)"
    by (simp add: spec_wellFormedIPv4_def sp)
  ultimately show ?thesis
    using True by simp
next
  case False
  then show ?thesis by (simp add: isValidIp_def spec_plausibleIPv6_def)
qed

lemma isValidIp_wellFormed:
  "isValidIp s \<Longrightarrow> spec_wellFormedIPv4 s \<or> spec_plausibleIPv6 s"
  by (auto simp: isValidIp_iff split: if_splits)

lemma not_wellFormed_sample:
  "\<not> (spec_wellFormedIPv4 ''localhost'' \<or> spec_plausibleIPv6 ''localhost'')"
  "\<not> (spec_wellFormedIPv4 ''999.1.1.1'' \<or> spec_plausibleIPv6 ''999.1.1.1'')"
  by (simp_all add: spec_wellFormedIPv4_def spec_plausibleIPv6_def isOctet_def isDigit_def
      digitVal_def decimalValue_def ipv6Regex_def rx_hex_def)

section \<open>The resolver\<close>

text \<open>
  Claim C6. \<open>checkIpReputation\<close> returns a result for every string, never an error. For a
  string that is neither a well-formed IPv4 address nor a plausible IPv6 one (and for every
  other string that \<open>isValidIp\<close> rejects) it returns the neutral unknown result and leaves
  the state as it was; for an accepted string that is not in the cache, a lookup that is
  aborted by the timeout, rejected, answered outside 200..299 or answered with an
  unparsable or error body also yields the neutral unknown result.
\<close>

theorem checkIpReputation_never_throws:
  "(\<exists>rep. fst (checkIpReputation w e addr) = Inr rep) \<and>
   (\<not> (spec_wellFormedIPv4 addr \<or> spec_plausibleIPv6 addr) \<longrightarrow>
      (\<exists>rep. fst (checkIpReputation w e addr) = Inr rep \<and> isNeutralUnknown addr rep) \<and>
      snd (checkIpReputation w e addr) = w) \<and>
   (\<not> isValidIp addr \<longrightarrow>
      (\<exists>rep. fst (checkIpReputation w e addr) = Inr rep \<and> isNeutralUnknown addr rep) \<and>
      snd (checkIpReputation w e addr) = w) \<and>
   (isValidIp addr \<and> fst (LRUCache_get (getIpCache w) (dateNow e) addr) = None \<and>
    lookupFails e addr \<longrightarrow>
      (\<exists>rep. fst (checkIpReputation w e addr) = Inr rep \<and> isNeutralUnknown addr rep))"
proof -
  have invalid: "(\<exists>rep. fst (checkIpReputation w e addr) = Inr rep \<and> isNeutralUnknown addr rep) \<and>
      snd (checkIpReputation w e addr) = w" if "\<not> isValidIp addr"
    using that
    by (simp add: checkIpReputation_def isNeutralUnknown_def createUnknownResult_def)
  have failed: "\<exists>rep. fst (checkIpReputation w e addr) = Inr rep \<and> isNeutralUnknown addr rep"
    if "isValidIp addr" "fst (LRUCache_get (getIpCache w) (dateNow e) addr) = None"
       "lookupFails e addr"
    using that
    by (auto simp: checkIpReputation_def isNeutralUnknown_def createUnknownResult_def
        lookupFails_def fetchIpReputation_def
        split: prod.splits option.splits sum.splits fetch_outcome.splits http_body.splits
          if_splits)
  show ?thesis
    using checkIpReputation_returns[of w e addr] invalid failed isValidIp_wellFormed[of addr]
    by blast
qed

lemma emptyWorld_miss:
  "fst (LRUCache_get (getIpCache emptyWorld) t a) = None"
  by (simp add: getIpCache_def emptyWorld_def LRUCache_new_def LRUCache_get_def Map_get_def)

lemma lookupFails_samples:
  "lookupFails (mockEnv Aborted) a" "lookupFails (mockEnv Rejected) a"
  "lookupFails (mockEnv (Responded 503 (Json jioResponse))) a"
  "lookupFails (mockEnv (Responded 200 Unparsable)) a"
  "lookupFails (mockEnv (Responded 200 (Json (jioResponse\<lparr>api_error := Some True\<rparr>)))) a"
  by (simp_all add: lookupFails_def mockEnv_def response_ok_def)

theorem checkIpReputation_never_throws_witness:
  "(\<exists>rep. fst (checkIpReputation emptyWorld (mockEnv (Responded 200 (Json jioResponse)))
              ''localhost'') = Inr rep \<and> isNeutralUnknown ''localhost'' rep) \<and>
   (\<exists>rep. fst (checkIpReputation emptyWorld (mockEnv (Responded 200 (Json jioResponse)))
              ''999.1.1.1'') = Inr rep \<and> isNeutralUnknown ''999.1.1.1'' rep) \<and>
   (\<exists>rep. fst (checkIpReputation emptyWorld (mockEnv Aborted) ''1.2.3.4'') = Inr rep \<and>
           isNeutralUnknown ''1.2.3.4'' rep) \<and>
   (\<exists>rep. fst (checkIpReputation emptyWorld (mockEnv (Responded 503 (Json jioResponse)))
              ''1.2.3.4'') = Inr rep \<and> isNeutralUnknown ''1.2.3.4'' rep) \<and>
   (\<exists>rep. fst (checkIpReputation emptyWorld (mockEnv (Responded 200 Unparsable))
              ''1.2.3.4'') = Inr rep \<and> isNeutralUnknown ''1.2.3.4'' rep) \<and>
   (\<exists>rep. fst (checkIpReputation emptyWorld
              (mockEnv (Responded 200 (Json (jioResponse\<lparr>api_error := Some True\<rparr>))))
              ''1.2.3.4'') = Inr rep \<and> isNeutralUnknown ''1.2.3.4'' rep)"
  using checkIpReputation_never_throws[of emptyWorld
          "mockEnv (Responded 200 (Json jioResponse))" "''localhost''"]
        checkIpReputation_never_throws[of emptyWorld
          "mockEnv (Responded 200 (Json jioResponse))" "''999.1.1.1''"]
        checkIpReputation_never_throws[of emptyWorld "mockEnv Aborted" "''1.2.3.4''"]
        checkIpReputation_never_throws[of emptyWorld
          "mockEnv (Responded 503 (Json jioResponse))" "''1.2.3.4''"]
        checkIpReputation_never_throws[of emptyWorld
          "mockEnv (Responded 200 Unparsable)" "''1.2.3.4''"]
        checkIpReputation_never_throws[of emptyWorld
          "mockEnv (Responded 200 (Json (jioResponse\<lparr>api_error := Some True\<rparr>)))" "''1.2.3.4''"]
  by (simp add: not_wellFormed_sample isValidIp_sample emptyWorld_miss lookupFails_samples)

section \<open>The analyzer's flags\<close>

text \<open>
  Claim C9, as the specification words it, names the flags of the WARN tiers
  \<open>low_movement\<close>, \<open>very_low_movement\<close>, \<open>low_touch\<close> and \<open>very_low_touch\<close>. None of these
  strings is produced: at an input of each tier the flag list does not contain the name.
\<close>

theorem warn_flag_names_counterexample:
  "''low_movement'' \<notin> set (b_flags (analyzeBehavior ''desktop'' (createMockBehavior\<lparr>mouseMovements := 30\<rparr>))) \<and>
   ''very_low_movement'' \<notin> set (b_flags (analyzeBehavior ''desktop'' (createMockBehavior\<lparr>mouseMovements := 5\<rparr>))) \<and>
   ''low_touch'' \<notin> set (b_flags (analyzeBehavior ''mobile'' (createMockBehavior\<lparr>touchEvents := 5\<rparr>))) \<and>
   ''very_low_touch'' \<notin> set (b_flags (analyzeBehavior ''tablet'' (createMockBehavior\<lparr>touchEvents := 1\<rparr>)))"
  by (simp add: analyzeBehavior_def createMockBehavior_def desktop_mouseMovements_good_def
      desktop_mouseMovements_warn_def mobile_touchEvents_good_def mobile_touchEvents_warn_def)

text \<open>
  Claim C9, amended. The flag attached by the desktop middle tier is
  \<open>low_mouse_movements\<close>, by the desktop bottom tier \<open>very_low_mouse_movements\<close>, by the
  touch middle tier \<open>low_touch_events\<close> and by the touch bottom tier
  \<open>very_low_touch_events\<close>; each is the only flag of its result.
\<close>

theorem warn_flag_names:
  "(dt = ''desktop'' \<longrightarrow>
      (20 \<le> mouseMovements beh \<and> mouseMovements beh < 40 \<longrightarrow>
         b_flags (analyzeBehavior dt beh) = [''low_mouse_movements'']) \<and>
      (mouseMovements beh < 20 \<longrightarrow>
         b_flags (analyzeBehavior dt beh) = [''very_low_mouse_movements''])) \<and>
   (dt = ''mobile'' \<or> dt = ''tablet'' \<longrightarrow>
      (3 \<le> touchEvents beh \<and> touchEvents beh < 7 \<longrightarrow>
         b_flags (analyzeBehavior dt beh) = [''low_touch_events'']) \<and>
      (touchEvents beh < 3 \<longrightarrow>
         b_flags (analyzeBehavior dt beh) = [''very_low_touch_events'']))"
  by (auto simp: analyzeBehavior_def Let_def desktop_mouseMovements_good_def
      desktop_mouseMovements_warn_def mobile_touchEvents_good_def mobile_touchEvents_warn_def)

theorem warn_flag_names_witness:
  "b_flags (analyzeBehavior ''desktop'' (createMockBehavior\<lparr>mouseMovements := 30\<rparr>))
     = [''low_mouse_movements''] \<and>
   b_flags (analyzeBehavior ''desktop'' (createMockBehavior\<lparr>mouseMovements := 5\<rparr>))
     = [''very_low_mouse_movements''] \<and>
   b_flags (analyzeBehavior ''mobile'' (createMockBehavior\<lparr>touchEvents := 5\<rparr>))
     = [''low_touch_events''] \<and>
   b_flags (analyzeBehavior ''tablet'' (createMockBehavior\<lparr>touchEvents := 1\<rparr>))
     = [''very_low_touch_events'']"
  using warn_flag_names[of "''desktop''" "createMockBehavior\<lparr>mouseMovements := 30\<rparr>"]
        warn_flag_names[of "''desktop''" "createMockBehavior\<lparr>mouseMovements := 5\<rparr>"]
        warn_flag_names[of "''mobile''" "createMockBehavior\<lparr>touchEvents := 5\<rparr>"]
        warn_flag_names[of "''tablet''" "createMockBehavior\<lparr>touchEvents := 1\<rparr>"]
  by (simp add: createMockBehavior_def)

section \<open>The cache\<close>

lemma Map_has_iff: "Map_has m k \<longleftrightarrow> k \<in> set (map fst m)"
  by (simp add: Map_has_def map_of_eq_None_iff)

lemma keys_Map_delete: "map fst (Map_delete m k) = removeAll k (map fst m)"
  by (induction m) (auto simp: Map_delete_def)

lemma Map_delete_absent: "k \<notin> set (map fst m) \<Longrightarrow> Map_delete m k = m"
  by (induction m) (auto simp: Map_delete_def)

lemma length_Map_delete:
  "distinct (map fst m) \<Longrightarrow> k \<in> set (map fst m) \<Longrightarrow> Suc (length (Map_delete m k)) = length m"
  by (induction m) (auto simp: Map_delete_def Map_delete_absent[unfolded Map_delete_def])

lemma length_Map_delete_le: "length (Map_delete m k) \<le> length m"
  by (simp add: Map_delete_def)

lemma set_Map_delete: "set (Map_delete m k) = {kv \<in> set m. fst kv \<noteq> k}"
  by (auto simp: Map_delete_def)

lemma Map_set_after_delete: "Map_set (Map_delete m k) k v = Map_delete m k @ [(k, v)]"
  by (simp add: Map_set_def Map_has_iff keys_Map_delete)

lemma evictOldest_cache:
  assumes "cache_inv c" "cache c \<noteq> []"
  shows "cache (evictOldest c) = tl (cache c)"
proof -
  obtain kv rest where c: "cache c = kv # rest"
    using assms(2) by (cases "cache c") auto
  have "fst kv \<noteq> []" "fst kv \<notin> set (map fst rest)"
    using assms(1) c by (auto simp: cache_inv_def)
  then show ?thesis
    using c by (simp add: evictOldest_def Map_firstKey_def Map_delete_def
        Map_delete_absent[unfolded Map_delete_def])
qed

text \<open>
  On a cache in its intended state, \<open>set\<close> with a new non-empty key on a full cache drops
  exactly the oldest key and appends the new one.
\<close>

lemma LRUCache_set_keys_full:
  assumes "cache_inv c" "key \<noteq> []" "int (length (cache c)) = maxSize c"
    "\<not> Map_has (cache c) key"
  shows "map fst (cache (LRUCache_set c now key v ttl)) = tl (map fst (cache c)) @ [key]"
proof -
  have ne: "cache c \<noteq> []" using assms(1,3) by (auto simp: cache_inv_def)
  have k: "key \<notin> set (map fst (tl (cache c)))"
    using assms(4) ne by (cases "cache c") (auto simp: Map_has_iff)
  show ?thesis
    using assms ne k
    by (simp add: LRUCache_set_def Let_def Map_size_def evictOldest_cache
        Map_set_after_delete Map_delete_absent map_tl)
qed

lemma LRUCache_set_keys_present:
  assumes "Map_has (cache c) key"
  shows "map fst (cache (LRUCache_set c now key v ttl)) = removeAll key (map fst (cache c)) @ [key]"
  using assms
  by (simp add: LRUCache_set_def Let_def Map_set_after_delete keys_Map_delete)

lemma LRUCache_set_keys_room:
  assumes "int (length (cache c)) < maxSize c" "\<not> Map_has (cache c) key"
  shows "map fst (cache (LRUCache_set c now key v ttl)) = map fst (cache c) @ [key]"
  using assms
  by (simp add: LRUCache_set_def Let_def Map_size_def Map_set_after_delete Map_has_iff
      Map_delete_absent)

lemma maxSize_LRUCache_set: "maxSize (LRUCache_set c now key v ttl) = maxSize c"
  by (simp add: LRUCache_set_def Let_def evictOldest_def split: option.splits)

lemma LRUCache_set_inv:
  assumes "cache_inv c" "key \<noteq> []"
  shows "cache_inv (LRUCache_set c now key v ttl)"
proof -
  have len: "length (cache x) = length (map fst (cache x))" for x :: "'a LRUCache" by simp
  consider (present) "Map_has (cache c) key"
    | (room) "\<not> Map_has (cache c) key" "int (length (cache c)) < maxSize c"
    | (full) "\<not> Map_has (cache c) key" "int (length (cache c)) = maxSize c"
    by (cases "Map_has (cache c) key"; cases "int (length (cache c)) < maxSize c")
       (use assms(1) in \<open>auto simp: cache_inv_def\<close>)
  then show ?thesis
  proof cases
    case present
    have "Suc (length (removeAll key (map fst (cache c)))) = length (cache c)"
      using length_Map_delete[of "cache c" key] present assms(1)
      by (simp add: Map_has_iff cache_inv_def keys_Map_delete[symmetric])
    then show ?thesis
      using assms present
      unfolding cache_inv_def maxSize_LRUCache_set len[of "LRUCache_set c now key v ttl"]
        LRUCache_set_keys_present[OF present]
      by (auto simp: distinct_removeAll)
  next
    case room
    then show ?thesis
      using assms
      unfolding cache_inv_def maxSize_LRUCache_set len[of "LRUCache_set c now key v ttl"]
        LRUCache_set_keys_room[OF room(2,1)]
      by (auto simp: Map_has_iff)
  next
    case full
    have ne: "cache c \<noteq> []" using assms(1) full by (auto simp: cache_inv_def)
    show ?thesis
      using assms full ne
      unfolding cache_inv_def maxSize_LRUCache_set len[of "LRUCache_set c now key v ttl"]
        LRUCache_set_keys_full[OF assms full(2,1)]
      by (cases "cache c") (auto simp: Map_has_iff)
  qed
qed

lemma Map_delete_inv:
  assumes "cache_inv c"
  shows "cache_inv (c\<lparr>cache := Map_delete (cache c) key, stats := st\<rparr>)"
  using assms length_Map_delete_le[of "cache c" key]
  by (auto simp: cache_inv_def keys_Map_delete distinct_removeAll)

lemma LRUCache_get_inv:
  assumes "cache_inv c"
  shows "cache_inv (snd (LRUCache_get c now key))"
proof (cases "Map_get (cache c) key")
  case None
  then show ?thesis using assms by (simp add: LRUCache_get_def cache_inv_def)
next
  case (Some entry)
  then have mem: "key \<in> set (map fst (cache c))"
    by (metis Map_get_def Map_has_def Map_has_iff option.distinct(1))
  have l: "Suc (length (Map_delete (cache c) key)) = length (cache c)"
    using length_Map_delete[OF _ mem] assms by (simp add: cache_inv_def)
  have d: "distinct (map fst (Map_delete (cache c) key))"
          "[] \<notin> set (map fst (Map_delete (cache c) key))"
    using assms by (auto simp: cache_inv_def keys_Map_delete distinct_removeAll)
  have kne: "key \<noteq> []"
    using mem assms by (metis cache_inv_def)
  show ?thesis
    using Some assms l d kne
    by (auto simp: LRUCache_get_def Let_def cache_inv_def Map_set_after_delete
        keys_Map_delete set_Map_delete)
qed

text \<open>A hit of \<open>get\<close> moves the key to the most recent position.\<close>

lemma LRUCache_get_hit_keys:
  assumes "fst (LRUCache_get c now key) = Some v"
  shows "map fst (cache (snd (LRUCache_get c now key))) =
           removeAll key (map fst (cache c)) @ [key]"
  using assms
  by (auto simp: LRUCache_get_def Let_def Map_set_after_delete keys_Map_delete
      split: option.splits if_splits)

lemma LRUCache_has_inv: "cache_inv c \<Longrightarrow> cache_inv (snd (LRUCache_has c now key))"
  by (auto simp: LRUCache_has_def Let_def Map_delete_inv split: option.splits)

lemma LRUCache_delete_inv: "cache_inv c \<Longrightarrow> cache_inv (snd (LRUCache_delete c key))"
  by (simp add: LRUCache_delete_def Let_def Map_delete_inv)

lemma LRUCache_clear_inv: "cache_inv c \<Longrightarrow> cache_inv (LRUCache_clear c)"
  by (simp add: LRUCache_clear_def cache_inv_def)

lemma LRUCache_cleanup_inv:
  assumes "cache_inv c"
  shows "cache_inv (snd (LRUCache_cleanup c now))"
proof -
  have l: "int (length (filter P (cache c))) \<le> maxSize c" for P
    using assms length_filter_le[of P "cache c"] unfolding cache_inv_def by linarith
  have d: "distinct (map fst (filter P (cache c)))" for P
    using assms by (simp add: cache_inv_def distinct_map_filter)
  have n: "[] \<notin> set (map fst (filter P (cache c)))" for P
    using assms by (auto simp: cache_inv_def)
  have m: "1 \<le> maxSize c"
    using assms by (simp add: cache_inv_def)
  show ?thesis
    unfolding LRUCache_cleanup_def Let_def cache_inv_def
    using l d n m by simp
qed

lemma LRUCache_new_inv: "1 \<le> mx \<Longrightarrow> cache_inv (LRUCache_new mx ttl)"
  by (simp add: LRUCache_new_def cache_inv_def)

lemma apply_op_inv:
  "cache_inv c \<Longrightarrow> sets_nonempty_key op \<Longrightarrow> cache_inv (apply_op c op)"
  by (cases op)
     (simp_all add: LRUCache_get_inv LRUCache_set_inv LRUCache_has_inv LRUCache_delete_inv
        LRUCache_clear_inv LRUCache_cleanup_inv)

text \<open>
  With a capacity of at least one and no \<open>set\<close> of the empty key, every sequence of
  operations on a new cache keeps the number of entries within the capacity.
\<close>

lemma run_ops_inv:
  "cache_inv c \<Longrightarrow> list_all sets_nonempty_key ops \<Longrightarrow> cache_inv (run_ops c ops)"
  unfolding run_ops_def
  by (induction ops arbitrary: c) (simp_all add: apply_op_inv)

lemma run_ops_size:
  assumes "1 \<le> mx" "list_all sets_nonempty_key ops"
  shows "int (Map_size (cache (run_ops (LRUCache_new mx ttl) ops))) \<le> mx"
proof -
  have m: "maxSize (apply_op c op) = maxSize c" for c :: "'a LRUCache" and op
    by (cases op)
       (auto simp: maxSize_LRUCache_set LRUCache_get_def LRUCache_has_def LRUCache_delete_def
          LRUCache_clear_def LRUCache_cleanup_def Let_def split: option.splits)
  have "maxSize (run_ops c ops) = maxSize c" for c :: "'a LRUCache"
    unfolding run_ops_def by (induction ops arbitrary: c) (simp_all add: m)
  then have "maxSize (run_ops (LRUCache_new mx ttl) ops) = mx"
    by (simp add: LRUCache_new_def)
  then show ?thesis
    using run_ops_inv[OF LRUCache_new_inv[OF assms(1)] assms(2), of ttl]
    by (simp add: cache_inv_def Map_size_def)
qed

text \<open>
  Claim C7 says that the number of entries never exceeds \<open>maxSize\<close> after a \<open>set\<close> and
  that a \<open>set\<close> of a new key on a full cache evicts exactly the least recently used
  entry. With capacity 1, after \<open>set("", 1)\<close> the call \<open>set("a", 2)\<close> finds the cache full
  and calls \<open>evictOldest\<close>, whose test \<open>if (firstKey)\<close> is false for the empty string:
  nothing is evicted and the cache holds two entries.
\<close>

theorem LRUCache_set_empty_key_exceeds_maxSize:
  "map fst (cache (LRUCache_set (LRUCache_set (LRUCache_new 1 60000) 0 [] (1::nat) None)
                     1 ''a'' 2 None)) = [[], ''a''] \<and>
   int (Map_size (cache (LRUCache_set (LRUCache_set (LRUCache_new 1 60000) 0 [] (1::nat) None)
                     1 ''a'' 2 None)))
     > maxSize (LRUCache_set (LRUCache_set (LRUCache_new 1 60000) 0 [] (1::nat) None)
                     1 ''a'' 2 None)"
  by (simp add: LRUCache_set_def LRUCache_new_def Let_def Map_size_def Map_has_def Map_set_def
      Map_delete_def evictOldest_def Map_firstKey_def)

text \<open>The same test lets a cache of capacity 0 keep one entry.\<close>

lemma LRUCache_set_zero_capacity:
  "Map_size (cache (LRUCache_set (LRUCache_new 0 60000) 0 ''a'' (1::nat) None)) = 1"
  by (simp add: LRUCache_set_def LRUCache_new_def Let_def Map_size_def Map_has_def Map_set_def
      Map_delete_def evictOldest_def Map_firstKey_def)

end
